theory Spec2Isabelle
  imports Main "HOL-Library.Sublist"
begin

section \<open>Data model\<close>

text \<open>
  The rows of the five relations the route handlers read and write. Primary keys are
  generated by the store (UUID strings, never empty, hence always truthy in the
  JavaScript sense); they are modelled as natural numbers. Identifiers that come from
  the messaging platform (user, group and room ids) are strings, and a missing or
  \<open>null\<close> one is \<open>None\<close>.
\<close>

type_synonym uuid = nat

record profile =
  profile_id :: uuid
  line_user_id :: string
  display_name :: string
  role :: string

record family =
  family_id :: uuid
  line_group_id :: "string option"
  family_name :: string

text \<open>
  The webhook writes and reads the column \<open>user_id\<close> of \<open>family_members\<close>; both
  broadcasts read the column \<open>profile_id\<close>, which the webhook never writes. The schema
  is not part of the repository: the model has both columns, each nullable.
\<close>

record family_member =
  member_family_id :: uuid
  member_user_id :: "uuid option"
  member_profile_id :: "uuid option"

text \<open>
  \<open>sent_at\<close> is assigned by the store on insert and is the only ordering key: the
  table is kept in insertion order, which is the order of \<open>sent_at\<close>.
\<close>

record conversation =
  sender_id :: uuid
  conv_family_id :: "uuid option"
  content :: string
  is_ai_generated :: bool

record daily_topic =
  topic_family_id :: "uuid option"
  topic :: string
  sent_to_user_id :: "uuid option"

record store =
  profiles :: "profile list"
  families :: "family list"
  family_members :: "family_member list"
  conversations :: "conversation list"
  daily_topics :: "daily_topic list"
  next_id :: uuid

section \<open>Collaborators\<close>

text \<open>
  Every awaited call to a collaborator (the store, the messaging platform, the text
  generation service) is recorded, in order, with its arguments, and so is every draw
  of \<open>Math.random()\<close>.
\<close>

datatype call =
    SelectProfileByLineUserId string
  | LineGetProfile string
  | InsertProfile string string string
  | SelectFamilyByGroupId string
  | InsertFamily "string option" string
  | SelectPersonalMembership uuid
  | InsertFamilyMember uuid uuid
  | InsertConversation conversation
  | SelectConversationsByFamily uuid
  | SelectConversationsBySender uuid
  | ChatCompletion string
  | PushMessage string string
  | SelectFamilies
  | SelectFamilyMember uuid
  | SelectProfileById "uuid option"
  | InsertDailyTopic daily_topic
  | MathRandom

datatype exn = OpenAIError | LineError | SyntaxError

datatype chat_result = ChatThrows | ChatContent "string option"

text \<open>What the webhook handlers write with \<open>console.error\<close>.\<close>

datatype log =
    ProfileCreateError string
  | FamilyMemberError string
  | WebhookError exn
  | SignatureError
  | UserCreateError string
  | SaveError string
  | ConversationsError string
  | GenerationFailed
  | AISaveError string
  | AIError exn

record event =
  event_type :: string
  message_type :: string
  message_text :: string
  source_userId :: string
  source_groupId :: "string option"
  source_roomId :: "string option"

datatype time_of_day = Morning | Noon | Night

datatype season = Spring | Summer | Autumn | Winter

text \<open>
  What the collaborators answer is not decided by the handlers. The environment gives
  the answer to the call with a given index (the number of calls awaited before it):
  an error the store reports for reasons of its own, what concurrent deliveries did to
  the store while the call was awaited, whether a push is rejected, what the generation
  service returns, the outcome of the 30 percent trial. It also holds the signature
  primitive, the JSON parser, the clock (\<open>getHours()\<close> and \<open>getMonth()\<close> of the
  current date) and the prompt templates (fixed Japanese text in the source).
\<close>

record env =
  db_error :: "nat \<Rightarrow> string option"
  concurrent :: "nat \<Rightarrow> store \<Rightarrow> store"
  line_profile_name :: "nat \<Rightarrow> string option"
  push_rejected :: "nat \<Rightarrow> bool"
  chat_answer :: "nat \<Rightarrow> chat_result"
  random_below_03 :: "nat \<Rightarrow> bool"
  channelSecret :: string
  validateSignature :: "string \<Rightarrow> string \<Rightarrow> string \<Rightarrow> bool"
  json_events :: "string \<Rightarrow> event list option"
  date_hours :: nat
  date_month :: nat
  topic_prompt :: "season \<Rightarrow> time_of_day \<Rightarrow> string"
  history_preamble :: string

record world =
  db :: store
  calls :: "call list"
  delivered :: "(string \<times> string) list"
  console_errors :: "log list"

section \<open>JavaScript helpers\<close>

text \<open>
  An optional string is falsy when it is missing, \<open>null\<close> or empty; \<open>a || b\<close> is
  \<open>a\<close> when \<open>a\<close> is truthy and \<open>b\<close> otherwise, so \<open>a || null\<close> is
  \<open>or_else a None\<close>.
\<close>

definition truthy :: "string option \<Rightarrow> bool" where
  "truthy v = (case v of None \<Rightarrow> False | Some s \<Rightarrow> s \<noteq> [])"

definition or_else :: "string option \<Rightarrow> string option \<Rightarrow> string option" where
  "or_else a b = (if truthy a then a else b)"

text \<open>
  \<open>trim()\<close>. Strings are sequences of bytes, the UTF-8 encoding of the JavaScript
  string. The table holds the code points that ECMAScript removes: WhiteSpace (U+0009,
  U+000B, U+000C, U+FEFF and the space separators U+0020, U+00A0, U+1680, U+2000 to
  U+200A, U+202F, U+205F, U+3000) and LineTerminator (U+000A, U+000D, U+2028, U+2029).
\<close>

definition white_space :: "string list" where
  "white_space =
     [[CHR 0x09],
      [CHR 0x0A],
      [CHR 0x0B],
      [CHR 0x0C],
      [CHR 0x0D],
      [CHR 0x20],
      [CHR 0xC2, CHR 0xA0],
      [CHR 0xE1, CHR 0x9A, CHR 0x80],
      [CHR 0xE2, CHR 0x80, CHR 0x80],
      [CHR 0xE2, CHR 0x80, CHR 0x81],
      [CHR 0xE2, CHR 0x80, CHR 0x82],
      [CHR 0xE2, CHR 0x80, CHR 0x83],
      [CHR 0xE2, CHR 0x80, CHR 0x84],
      [CHR 0xE2, CHR 0x80, CHR 0x85],
      [CHR 0xE2, CHR 0x80, CHR 0x86],
      [CHR 0xE2, CHR 0x80, CHR 0x87],
      [CHR 0xE2, CHR 0x80, CHR 0x88],
      [CHR 0xE2, CHR 0x80, CHR 0x89],
      [CHR 0xE2, CHR 0x80, CHR 0x8A],
      [CHR 0xE2, CHR 0x80, CHR 0xA8],
      [CHR 0xE2, CHR 0x80, CHR 0xA9],
      [CHR 0xE2, CHR 0x80, CHR 0xAF],
      [CHR 0xE2, CHR 0x81, CHR 0x9F],
      [CHR 0xE3, CHR 0x80, CHR 0x80],
      [CHR 0xEF, CHR 0xBB, CHR 0xBF]]"

text \<open>The length of the white space a string starts with, 0 when it starts with none.\<close>

definition leading_space :: "string list \<Rightarrow> string \<Rightarrow> nat" where
  "leading_space table s =
     (case find (\<lambda>ws. prefix ws s) table of Some ws \<Rightarrow> length ws | None \<Rightarrow> 0)"

text \<open>Removes leading white space, at most \<open>n\<close> times.\<close>

primrec strip :: "string list \<Rightarrow> nat \<Rightarrow> string \<Rightarrow> string" where
  "strip table 0 s = s"
| "strip table (Suc n) s =
     (if leading_space table s = 0 then s
      else strip table n (drop (leading_space table s) s))"

definition trim :: "string \<Rightarrow> string" where
  "trim s = rev (strip (map rev white_space) (length s) (rev (strip white_space (length s) s)))"

fun join_lines :: "string list \<Rightarrow> string" where
  "join_lines [] = []"
| "join_lines [x] = x"
| "join_lines (x # y # ys) = x @ [CHR 0x0A] @ join_lines (y # ys)"

text \<open>\<open>s.includes(sub)\<close>: \<open>sub\<close> occurs in \<open>s\<close>.\<close>

fun str_includes :: "string \<Rightarrow> string \<Rightarrow> bool" where
  "str_includes [] sub = (sub = [])"
| "str_includes (c # cs) sub = (prefix sub (c # cs) \<or> str_includes cs sub)"

text \<open>\<open>a || b\<close> where \<open>b\<close> is a string.\<close>

definition or_string :: "string option \<Rightarrow> string \<Rightarrow> string" where
  "or_string a b = (case a of None \<Rightarrow> b | Some s \<Rightarrow> if s \<noteq> [] then s else b)"

section \<open>The store\<close>

definition duplicate_key :: string where
  "duplicate_key = ''duplicate key value violates unique constraint''"

definition not_single_row :: string where
  "not_single_row = ''JSON object requested, multiple (or no) rows returned''"

text \<open>
  Modelled from the spec: the schema with its unique constraints is not part of the
  repository. The platform user id of a Profile is unique, a group-channel id is unique
  among Families when present, and a (family, user) pair is unique among
  FamilyMemberships; an insert that would break one fails with the store's
  duplicate-key error. Every insert appends the row, with a fresh id where the relation
  has one.
\<close>

definition insert_profile :: "string \<Rightarrow> string \<Rightarrow> string \<Rightarrow> store \<Rightarrow> string + uuid \<times> store" where
  "insert_profile uid name r s =
     (if list_ex (\<lambda>p. line_user_id p = uid) (profiles s) then Inl duplicate_key
      else Inr (next_id s,
        s\<lparr>profiles := profiles s @
             [\<lparr>profile_id = next_id s, line_user_id = uid, display_name = name, role = r\<rparr>],
          next_id := Suc (next_id s)\<rparr>))"

definition insert_family :: "string option \<Rightarrow> string \<Rightarrow> store \<Rightarrow> string + uuid \<times> store" where
  "insert_family g name s =
     (if g \<noteq> None \<and> list_ex (\<lambda>f. line_group_id f = g) (families s) then Inl duplicate_key
      else Inr (next_id s,
        s\<lparr>families := families s @
             [\<lparr>family_id = next_id s, line_group_id = g, family_name = name\<rparr>],
          next_id := Suc (next_id s)\<rparr>))"

definition insert_family_member :: "uuid \<Rightarrow> uuid \<Rightarrow> store \<Rightarrow> string + unit \<times> store" where
  "insert_family_member f u s =
     (if list_ex (\<lambda>m. member_family_id m = f \<and> member_user_id m = Some u) (family_members s)
      then Inl duplicate_key
      else Inr ((), s\<lparr>family_members := family_members s @
             [\<lparr>member_family_id = f, member_user_id = Some u, member_profile_id = None\<rparr>]\<rparr>))"

definition insert_conversation :: "conversation \<Rightarrow> store \<Rightarrow> string + unit \<times> store" where
  "insert_conversation c s = Inr ((), s\<lparr>conversations := conversations s @ [c]\<rparr>)"

definition insert_daily_topic :: "daily_topic \<Rightarrow> store \<Rightarrow> string + unit \<times> store" where
  "insert_daily_topic t s = Inr ((), s\<lparr>daily_topics := daily_topics s @ [t]\<rparr>)"

text \<open>
  An awaited call: concurrent deliveries may have changed the store by the time it
  runs, and it is appended to the record of calls.
\<close>

definition await :: "env \<Rightarrow> call \<Rightarrow> world \<Rightarrow> world" where
  "await e c w = w\<lparr>db := concurrent e (length (calls w)) (db w), calls := calls w @ [c]\<rparr>"

text \<open>
  The store client never throws: it returns \<open>{ data, error }\<close>, here \<open>Inr data\<close> or
  \<open>Inl message\<close>.
\<close>

definition db_select :: "env \<Rightarrow> call \<Rightarrow> (store \<Rightarrow> 'a) \<Rightarrow> world \<Rightarrow> (string + 'a) \<times> world" where
  "db_select e c q w =
     (let w1 = await e c w in
      case db_error e (length (calls w)) of
        Some m \<Rightarrow> (Inl m, w1)
      | None \<Rightarrow> (Inr (q (db w1)), w1))"

definition db_insert :: "env \<Rightarrow> call \<Rightarrow> (store \<Rightarrow> string + 'a \<times> store) \<Rightarrow> world \<Rightarrow> (string + 'a) \<times> world" where
  "db_insert e c ins w =
     (let w1 = await e c w in
      case db_error e (length (calls w)) of
        Some m \<Rightarrow> (Inl m, w1)
      | None \<Rightarrow> (case ins (db w1) of
                   Inl m \<Rightarrow> (Inl m, w1)
                 | Inr (a, s) \<Rightarrow> (Inr a, w1\<lparr>db := s\<rparr>)))"

text \<open>\<open>.single()\<close>: exactly one row, or an error.\<close>

definition single :: "string + 'a list \<Rightarrow> string + 'a" where
  "single r = (case r of Inl m \<Rightarrow> Inl m | Inr [x] \<Rightarrow> Inr x | Inr _ \<Rightarrow> Inl not_single_row)"

definition data_of :: "string + 'a \<Rightarrow> 'a option" where
  "data_of r = (case r of Inl _ \<Rightarrow> None | Inr x \<Rightarrow> Some x)"

definition error_of :: "string + 'a \<Rightarrow> string option" where
  "error_of r = (case r of Inl m \<Rightarrow> Some m | Inr _ \<Rightarrow> None)"

definition console_error :: "log \<Rightarrow> world \<Rightarrow> world" where
  "console_error l w = w\<lparr>console_errors := console_errors w @ [l]\<rparr>"

section \<open>The messaging platform and the generation service\<close>

definition getProfile :: "env \<Rightarrow> string \<Rightarrow> world \<Rightarrow> string option \<times> world" where
  "getProfile e userId w = (line_profile_name e (length (calls w)), await e (LineGetProfile userId) w)"

definition pushMessage :: "env \<Rightarrow> string \<Rightarrow> string \<Rightarrow> world \<Rightarrow> (exn + unit) \<times> world" where
  "pushMessage e target msg w =
     (let w1 = await e (PushMessage target msg) w in
      if push_rejected e (length (calls w)) then (Inl LineError, w1)
      else (Inr (), w1\<lparr>delivered := delivered w1 @ [(target, msg)]\<rparr>))"

text \<open>
  \<open>openai.chat.completions.create\<close> with the given user message (the system message
  is a fixed text), then \<open>completion.choices[0]?.message?.content?.trim()\<close>.
\<close>

definition chatCompletion :: "env \<Rightarrow> string \<Rightarrow> world \<Rightarrow> (exn + string option) \<times> world" where
  "chatCompletion e prompt w =
     (let w1 = await e (ChatCompletion prompt) w in
      case chat_answer e (length (calls w)) of
        ChatThrows \<Rightarrow> (Inl OpenAIError, w1)
      | ChatContent t \<Rightarrow> (Inr (map_option trim t), w1))"

definition mathRandomBelow03 :: "env \<Rightarrow> world \<Rightarrow> bool \<times> world" where
  "mathRandomBelow03 e w = (random_below_03 e (length (calls w)), w\<lparr>calls := calls w @ [MathRandom]\<rparr>)"

section \<open>The group-aware webhook (part_002, lines 1 to 399)\<close>

subsection \<open>getOrCreateUserProfile\<close>

definition getOrCreateUserProfile :: "env \<Rightarrow> string \<Rightarrow> world \<Rightarrow> uuid option \<times> world" where
  "getOrCreateUserProfile e userId w =
     (case db_select e (SelectProfileByLineUserId userId)
             (\<lambda>s. filter (\<lambda>p. line_user_id p = userId) (profiles s)) w of
        (r, w1) \<Rightarrow>
          (case data_of (single r) of
             Some p \<Rightarrow> (Some (profile_id p), w1)
           | None \<Rightarrow>
               (case getProfile e userId w1 of
                  (n, w2) \<Rightarrow>
                    (let displayName = (case n of Some d \<Rightarrow> d | None \<Rightarrow> ''Guest'') in
                     case db_insert e (InsertProfile userId displayName ''member'')
                            (insert_profile userId displayName ''member'') w2 of
                       (Inl err, w3) \<Rightarrow> (None, console_error (ProfileCreateError err) w3)
                     | (Inr newId, w3) \<Rightarrow> (Some newId, w3)))))"

subsection \<open>getOrCreateFamily\<close>

text \<open>The two default display names, as UTF-8.\<close>

definition group_family_name :: string where
  "group_family_name = [CHR 0xE5, CHR 0xAE, CHR 0xB6, CHR 0xE6, CHR 0x97, CHR 0x8F, CHR 0xE3,
     CHR 0x82, CHR 0xB0, CHR 0xE3, CHR 0x83, CHR 0xAB, CHR 0xE3, CHR 0x83, CHR 0xBC, CHR 0xE3,
     CHR 0x83, CHR 0x97]"

definition my_home_name :: string where
  "my_home_name = [CHR 0xE3, CHR 0x83, CHR 0x9E, CHR 0xE3, CHR 0x82, CHR 0xA4, CHR 0xE3,
     CHR 0x83, CHR 0x9B, CHR 0xE3, CHR 0x83, CHR 0xBC, CHR 0xE3, CHR 0x83, CHR 0xA0]"

text \<open>
  The query of branch B: the memberships of the profile, inner-joined to their Family,
  where the Family's \<open>line_group_id\<close> is null, \<open>limit(1)\<close>. The query has no order;
  the model returns the first row in table order.
\<close>

definition personal_memberships :: "uuid \<Rightarrow> store \<Rightarrow> family_member list" where
  "personal_memberships profileId s =
     take 1 (filter (\<lambda>m. member_user_id m = Some profileId \<and>
                list_ex (\<lambda>f. family_id f = member_family_id m \<and> line_group_id f = None) (families s))
              (family_members s))"

text \<open>Branch A of \<open>getOrCreateFamily\<close>: the sender writes in a group or a room.\<close>

definition family_of_group :: "env \<Rightarrow> string \<Rightarrow> world \<Rightarrow> uuid option \<times> world" where
  "family_of_group e g w =
     (case db_select e (SelectFamilyByGroupId g)
             (\<lambda>s. filter (\<lambda>f. line_group_id f = Some g) (families s)) w of
        (r, w1) \<Rightarrow>
          (case data_of (single r) of
             Some existingFamily \<Rightarrow> (Some (family_id existingFamily), w1)
           | None \<Rightarrow>
               (case db_insert e (InsertFamily (Some g) group_family_name)
                       (insert_family (Some g) group_family_name) w1 of
                  (r2, w2) \<Rightarrow> (data_of r2, w2))))"

text \<open>Branch B: a 1:1 chat.\<close>

definition family_of_person :: "env \<Rightarrow> uuid \<Rightarrow> world \<Rightarrow> uuid option \<times> world" where
  "family_of_person e profileId w =
     (case db_select e (SelectPersonalMembership profileId) (personal_memberships profileId) w of
        (r, w1) \<Rightarrow>
          (case data_of r of
             Some (m # ms) \<Rightarrow> (Some (member_family_id m), w1)
           | _ \<Rightarrow>
               (case db_insert e (InsertFamily None my_home_name)
                       (insert_family None my_home_name) w1 of
                  (r2, w2) \<Rightarrow> (data_of r2, w2))))"

text \<open>The membership insert that ends \<open>getOrCreateFamily\<close>.\<close>

definition register_member :: "env \<Rightarrow> uuid \<Rightarrow> uuid \<Rightarrow> world \<Rightarrow> world" where
  "register_member e f profileId w =
     (case db_insert e (InsertFamilyMember f profileId) (insert_family_member f profileId) w of
        (r, w1) \<Rightarrow>
          (case error_of r of
             Some msg \<Rightarrow>
               if \<not> str_includes msg ''duplicate'' then console_error (FamilyMemberError msg) w1
               else w1
           | None \<Rightarrow> w1))"

text \<open>The \<open>if (lineGroupId) ... else ...\<close> that determines the family id.\<close>

definition determine_family :: "env \<Rightarrow> uuid \<Rightarrow> string option \<Rightarrow> world \<Rightarrow> uuid option \<times> world" where
  "determine_family e profileId lineGroupId w =
     (case lineGroupId of
        Some g \<Rightarrow> if g \<noteq> [] then family_of_group e g w else family_of_person e profileId w
      | None \<Rightarrow> family_of_person e profileId w)"

definition getOrCreateFamily :: "env \<Rightarrow> uuid \<Rightarrow> string \<Rightarrow> string option \<Rightarrow> world \<Rightarrow> uuid option \<times> world" where
  "getOrCreateFamily e profileId lineUserId lineGroupId w =
     (case determine_family e profileId lineGroupId w of
        (familyId, w1) \<Rightarrow>
          (case familyId of
             Some f \<Rightarrow> (familyId, register_member e f profileId w1)
           | None \<Rightarrow> (familyId, w1)))"

subsection \<open>handleAIResponse\<close>

text \<open>The five most recent entries of a family, newest first.\<close>

definition recent_of_family :: "uuid \<Rightarrow> store \<Rightarrow> conversation list" where
  "recent_of_family f s = take 5 (rev (filter (\<lambda>c. conv_family_id c = Some f) (conversations s)))"

definition handleAIResponse :: "env \<Rightarrow> uuid option \<Rightarrow> uuid \<Rightarrow> string \<Rightarrow> world \<Rightarrow> (exn + unit) \<times> world" where
  "handleAIResponse e familyId senderId replyToId w =
     (case familyId of
        None \<Rightarrow> (Inr (), w)
      | Some validFamilyId \<Rightarrow>
          (case db_select e (SelectConversationsByFamily validFamilyId)
                  (recent_of_family validFamilyId) w of
             (r, w1) \<Rightarrow>
               (let history = (case data_of r of
                                 Some cs \<Rightarrow> join_lines (map content (rev cs))
                               | None \<Rightarrow> []) in
                case chatCompletion e history w1 of
                  (Inl x, w2) \<Rightarrow> (Inl x, w2)
                | (Inr aiText, w2) \<Rightarrow>
                    (case aiText of
                       None \<Rightarrow> (Inr (), w2)
                     | Some t \<Rightarrow>
                         if t = [] then (Inr (), w2)
                         else
                           (case pushMessage e replyToId t w2 of
                              (Inl x, w3) \<Rightarrow> (Inl x, w3)
                            | (Inr u, w3) \<Rightarrow>
                                (let row = \<lparr>sender_id = senderId, conv_family_id = Some validFamilyId,
                                             content = t, is_ai_generated = True\<rparr> in
                                 case db_insert e (InsertConversation row) (insert_conversation row) w3 of
                                   (r4, w4) \<Rightarrow> (Inr (), w4)))))))"

subsection \<open>POST\<close>

record request =
  body :: string
  signature_header :: string

datatype response = Response string nat

text \<open>The body of the loop over the events of one delivery.\<close>

definition process_event :: "env \<Rightarrow> event \<Rightarrow> world \<Rightarrow> (exn + unit) \<times> world" where
  "process_event e ev w =
     (if event_type ev \<noteq> ''message'' \<or> message_type ev \<noteq> ''text'' then (Inr (), w)
      else
        (let userId = source_userId ev;
             groupId = or_else (or_else (source_groupId ev) (source_roomId ev)) None;
             msg = message_text ev in
         case getOrCreateUserProfile e userId w of
           (None, w1) \<Rightarrow> (Inr (), w1)
         | (Some profileId, w1) \<Rightarrow>
             (case getOrCreateFamily e profileId userId groupId w1 of
                (familyId, w2) \<Rightarrow>
                  (let row = \<lparr>sender_id = profileId, conv_family_id = familyId,
                               content = msg, is_ai_generated = False\<rparr> in
                   case db_insert e (InsertConversation row) (insert_conversation row) w2 of
                     (r, w3) \<Rightarrow>
                       if error_of r = None \<and> familyId \<noteq> None then
                         (case mathRandomBelow03 e w3 of
                            (hit, w4) \<Rightarrow>
                              if hit then handleAIResponse e familyId profileId (or_string groupId userId) w4
                              else (Inr (), w4))
                       else (Inr (), w3)))))"

fun process_events :: "env \<Rightarrow> event list \<Rightarrow> world \<Rightarrow> (exn + unit) \<times> world" where
  "process_events e [] w = (Inr (), w)"
| "process_events e (ev # evs) w =
     (case process_event e ev w of
        (Inl x, w1) \<Rightarrow> (Inl x, w1)
      | (Inr u, w1) \<Rightarrow> process_events e evs w1)"

definition POST :: "env \<Rightarrow> request \<Rightarrow> world \<Rightarrow> response \<times> world" where
  "POST e req w =
     (if \<not> validateSignature e (body req) (channelSecret e) (signature_header req)
      then (Response ''Invalid signature'' 200, w)
      else
        (case json_events e (body req) of
           None \<Rightarrow> (Response ''Error'' 200, console_error (WebhookError SyntaxError) w)
         | Some events \<Rightarrow>
             (case process_events e events w of
                (Inl x, w1) \<Rightarrow> (Response ''Error'' 200, console_error (WebhookError x) w1)
              | (Inr u, w1) \<Rightarrow> (Response ''OK'' 200, w1))))"

section \<open>The 1:1 webhook without AI participation (part_002, lines 399 to 490)\<close>

definition process_event_basic :: "env \<Rightarrow> event \<Rightarrow> world \<Rightarrow> world" where
  "process_event_basic e ev w =
     (if event_type ev \<noteq> ''message'' \<or> message_type ev \<noteq> ''text'' then w
      else
        (let userId = source_userId ev; msg = message_text ev in
         case db_select e (SelectProfileByLineUserId userId)
                (\<lambda>s. filter (\<lambda>p. line_user_id p = userId) (profiles s)) w of
           (r, w1) \<Rightarrow>
             (case (case data_of (single r) of
                      Some p \<Rightarrow> (Some (profile_id p), w1)
                    | None \<Rightarrow>
                        (case db_insert e (InsertProfile userId ''Guest'' ''unknown'')
                                (insert_profile userId ''Guest'' ''unknown'') w1 of
                           (Inl err, w2) \<Rightarrow> (None, console_error (UserCreateError err) w2)
                         | (Inr newId, w2) \<Rightarrow> (Some newId, w2))) of
                (None, w2) \<Rightarrow> w2
              | (Some profileId, w2) \<Rightarrow>
                  (let row = \<lparr>sender_id = profileId, conv_family_id = None,
                               content = msg, is_ai_generated = False\<rparr> in
                   case db_insert e (InsertConversation row) (insert_conversation row) w2 of
                     (Inl err, w3) \<Rightarrow> console_error (SaveError err) w3
                   | (Inr u, w3) \<Rightarrow> w3))))"

definition POST_basic :: "env \<Rightarrow> request \<Rightarrow> world \<Rightarrow> response \<times> world" where
  "POST_basic e req w =
     (if \<not> validateSignature e (body req) (channelSecret e) (signature_header req)
      then (Response ''Invalid signature'' 200, console_error SignatureError w)
      else
        (case json_events e (body req) of
           None \<Rightarrow> (Response ''Error'' 200, console_error (WebhookError SyntaxError) w)
         | Some events \<Rightarrow> (Response ''OK'' 200, foldl (\<lambda>w1 ev. process_event_basic e ev w1) w events)))"

section \<open>The sender-scoped AI participation (part_002, lines 607 to 691)\<close>

text \<open>The five most recent entries of a sender, newest first.\<close>

definition recent_of_sender :: "uuid \<Rightarrow> store \<Rightarrow> conversation list" where
  "recent_of_sender p s = take 5 (rev (filter (\<lambda>c. sender_id c = p) (conversations s)))"

definition handleAIResponse_degraded :: "env \<Rightarrow> uuid \<Rightarrow> string \<Rightarrow> world \<Rightarrow> (exn + unit) \<times> world" where
  "handleAIResponse_degraded e senderId lineUserId w =
     (case db_select e (SelectConversationsBySender senderId) (recent_of_sender senderId) w of
        (Inl err, w1) \<Rightarrow> (Inr (), console_error (ConversationsError err) w1)
      | (Inr cs, w1) \<Rightarrow>
          if cs = [] then (Inr (), w1)
          else
            (let userMessages = rev (map content (filter (\<lambda>c. \<not> is_ai_generated c) cs)) in
             if userMessages = [] then (Inr (), w1)
             else
               (let conversationHistory = join_lines userMessages in
                case chatCompletion e (history_preamble e @ conversationHistory) w1 of
                  (Inl x, w2) \<Rightarrow> (Inl x, console_error (AIError x) w2)
                | (Inr aiMessage, w2) \<Rightarrow>
                    (case or_else aiMessage None of
                       None \<Rightarrow> (Inr (), console_error GenerationFailed w2)
                     | Some t \<Rightarrow>
                         (case pushMessage e lineUserId t w2 of
                            (Inl x, w3) \<Rightarrow> (Inl x, console_error (AIError x) w3)
                          | (Inr u, w3) \<Rightarrow>
                              (let row = \<lparr>sender_id = senderId, conv_family_id = None,
                                           content = t, is_ai_generated = True\<rparr> in
                               case db_insert e (InsertConversation row) (insert_conversation row) w3 of
                                 (Inl err, w4) \<Rightarrow> (Inr (), console_error (AISaveError err) w4)
                               | (Inr v, w4) \<Rightarrow> (Inr (), w4)))))))"

section \<open>The scheduled broadcast (src/app/api/cron/daily-topic/route.ts)\<close>

text \<open>Console output of the broadcast handlers is not modelled.\<close>

definition getTimeOfDay :: "env \<Rightarrow> time_of_day" where
  "getTimeOfDay e =
     (let h = date_hours e in
      if h \<ge> 5 \<and> h < 12 then Morning
      else if h \<ge> 12 \<and> h < 18 then Noon
      else Night)"

definition getSeason :: "env \<Rightarrow> season" where
  "getSeason e =
     (let m = date_month e + 1 in
      if m \<ge> 3 \<and> m \<le> 5 then Spring
      else if m \<ge> 6 \<and> m \<le> 8 then Summer
      else if m \<ge> 9 \<and> m \<le> 11 then Autumn
      else Winter)"

definition getFamilyMemberLineUserId :: "env \<Rightarrow> uuid \<Rightarrow> world \<Rightarrow> string option \<times> world" where
  "getFamilyMemberLineUserId e familyId w =
     (case db_select e (SelectFamilyMember familyId)
             (\<lambda>s. take 1 (filter (\<lambda>m. member_family_id m = familyId) (family_members s))) w of
        (Inl err, w1) \<Rightarrow> (None, w1)
      | (Inr [], w1) \<Rightarrow> (None, w1)
      | (Inr (m # ms), w1) \<Rightarrow>
          (let profileId = member_profile_id m in
           case db_select e (SelectProfileById profileId)
                  (\<lambda>s. filter (\<lambda>p. Some (profile_id p) = profileId) (profiles s)) w1 of
             (r, w2) \<Rightarrow>
               (case single r of
                  Inl err \<Rightarrow> (None, w2)
                | Inr p \<Rightarrow> if line_user_id p = [] then (None, w2) else (Some (line_user_id p), w2))))"

datatype cron_response =
    Failed_to_fetch_families string
  | No_families
  | Summary nat nat nat

text \<open>
  Step 5 of the loop body and the \<open>successCount++\<close> after it. \<open>sentToUserId\<close> is
  declared \<open>null\<close> and never assigned.
\<close>

definition save_daily_topic :: "env \<Rightarrow> family \<Rightarrow> string \<Rightarrow> world \<Rightarrow> nat \<Rightarrow> nat \<Rightarrow> (exn + unit) \<times> world \<times> nat \<times> nat" where
  "save_daily_topic e fam tp w successCount errorCount =
     (let row = \<lparr>topic_family_id = Some (family_id fam), topic = tp, sent_to_user_id = None\<rparr> in
      case db_insert e (InsertDailyTopic row) (insert_daily_topic row) w of
        (r, w1) \<Rightarrow> (Inr (), w1, successCount + 1, errorCount))"

text \<open>
  The \<open>try\<close> block of one iteration, with the two counters. \<open>Inl\<close> is an exception
  that leaves the block; an \<open>errorCount++; continue\<close> returns with the counter
  incremented.
\<close>

definition GET_family :: "env \<Rightarrow> family \<Rightarrow> world \<times> nat \<times> nat \<Rightarrow> (exn + unit) \<times> world \<times> nat \<times> nat" where
  "GET_family e fam st =
     (case st of
        (w, successCount, errorCount) \<Rightarrow>
          (case chatCompletion e (topic_prompt e (getSeason e) (getTimeOfDay e)) w of
             (Inl x, w1) \<Rightarrow> (Inl x, w1, successCount, errorCount)
           | (Inr t, w1) \<Rightarrow>
               (case or_else t None of
                  None \<Rightarrow> (Inr (), w1, successCount, errorCount + 1)
                | Some tp \<Rightarrow>
                    (case or_else (line_group_id fam) None of
                       Some g \<Rightarrow>
                         (case pushMessage e g tp w1 of
                            (Inr u, w2) \<Rightarrow> save_daily_topic e fam tp w2 successCount errorCount
                          | (Inl lineError, w2) \<Rightarrow>
                              (case getFamilyMemberLineUserId e (family_id fam) w2 of
                                 (Some fallbackUserId, w3) \<Rightarrow>
                                   (case pushMessage e fallbackUserId tp w3 of
                                      (Inr u, w4) \<Rightarrow> save_daily_topic e fam tp w4 successCount errorCount
                                    | (Inl fallbackError, w4) \<Rightarrow>
                                        (Inr (), w4, successCount, errorCount + 1))
                               | (None, w3) \<Rightarrow> (Inr (), w3, successCount, errorCount + 1)))
                     | None \<Rightarrow>
                         (case getFamilyMemberLineUserId e (family_id fam) w1 of
                            (None, w2) \<Rightarrow> (Inr (), w2, successCount, errorCount + 1)
                          | (Some lineUserId, w2) \<Rightarrow>
                              (case pushMessage e lineUserId tp w2 of
                                 (Inr u, w3) \<Rightarrow> save_daily_topic e fam tp w3 successCount errorCount
                               | (Inl lineError, w3) \<Rightarrow>
                                   (Inr (), w3, successCount, errorCount + 1)))))))"

text \<open>One iteration: the \<open>try\<close> block and its \<open>catch\<close>.\<close>

definition GET_iteration :: "env \<Rightarrow> world \<times> nat \<times> nat \<Rightarrow> family \<Rightarrow> world \<times> nat \<times> nat" where
  "GET_iteration e st fam =
     (case GET_family e fam st of
        (Inl x, w, successCount, errorCount) \<Rightarrow> (w, successCount, errorCount + 1)
      | (Inr u, st1) \<Rightarrow> st1)"

definition GET :: "env \<Rightarrow> world \<Rightarrow> cron_response \<times> world" where
  "GET e w =
     (case db_select e SelectFamilies families w of
        (Inl familiesError, w1) \<Rightarrow> (Failed_to_fetch_families familiesError, w1)
      | (Inr fams, w1) \<Rightarrow>
          if fams = [] then (No_families, w1)
          else
            (case foldl (GET_iteration e) (w1, 0, 0) fams of
               (w2, successCount, errorCount) \<Rightarrow>
                 (Summary (length fams) successCount errorCount, w2)))"

section \<open>The scheduled broadcast that also logs the topic (part_000, lines 1 to 478)\<close>

text \<open>
  As \<open>getFamilyMemberLineUserId\<close>, returning the profile id with the platform user
  id: the \<open>profile_id\<close> of the membership row, which is the id of the Profile found.
\<close>

definition getFamilyMemberInfo :: "env \<Rightarrow> uuid \<Rightarrow> world \<Rightarrow> (string \<times> uuid) option \<times> world" where
  "getFamilyMemberInfo e familyId w =
     (case db_select e (SelectFamilyMember familyId)
             (\<lambda>s. take 1 (filter (\<lambda>m. member_family_id m = familyId) (family_members s))) w of
        (Inl err, w1) \<Rightarrow> (None, w1)
      | (Inr [], w1) \<Rightarrow> (None, w1)
      | (Inr (m # ms), w1) \<Rightarrow>
          (let profileId = member_profile_id m in
           case db_select e (SelectProfileById profileId)
                  (\<lambda>s. filter (\<lambda>p. Some (profile_id p) = profileId) (profiles s)) w1 of
             (r, w2) \<Rightarrow>
               (case single r of
                  Inl err \<Rightarrow> (None, w2)
                | Inr p \<Rightarrow>
                    if line_user_id p = [] then (None, w2)
                    else (Some (line_user_id p, profile_id p), w2))))"

text \<open>Steps 6 and 7 of the loop body and the \<open>successCount++\<close> after them.\<close>

definition save_topic_and_conversation :: "env \<Rightarrow> family \<Rightarrow> string \<Rightarrow> uuid \<Rightarrow> world \<Rightarrow> nat \<Rightarrow> nat \<Rightarrow> (exn + unit) \<times> world \<times> nat \<times> nat" where
  "save_topic_and_conversation e fam tp profileId w successCount errorCount =
     (let row = \<lparr>topic_family_id = Some (family_id fam), topic = tp,
                  sent_to_user_id = Some profileId\<rparr> in
      case db_insert e (InsertDailyTopic row) (insert_daily_topic row) w of
        (r, w1) \<Rightarrow>
          (let conv = \<lparr>sender_id = profileId, conv_family_id = Some (family_id fam),
                        content = tp, is_ai_generated = True\<rparr> in
           case db_insert e (InsertConversation conv) (insert_conversation conv) w1 of
             (r2, w2) \<Rightarrow> (Inr (), w2, successCount + 1, errorCount)))"

definition GET_part_000_family :: "env \<Rightarrow> family \<Rightarrow> world \<times> nat \<times> nat \<Rightarrow> (exn + unit) \<times> world \<times> nat \<times> nat" where
  "GET_part_000_family e fam st =
     (case st of
        (w, successCount, errorCount) \<Rightarrow>
          (case chatCompletion e (topic_prompt e (getSeason e) (getTimeOfDay e)) w of
             (Inl x, w1) \<Rightarrow> (Inl x, w1, successCount, errorCount)
           | (Inr t, w1) \<Rightarrow>
               (case or_else t None of
                  None \<Rightarrow> (Inr (), w1, successCount, errorCount + 1)
                | Some tp \<Rightarrow>
                    (case getFamilyMemberInfo e (family_id fam) w1 of
                       (None, w2) \<Rightarrow> (Inr (), w2, successCount, errorCount + 1)
                     | (Some (lineUserId, profileId), w2) \<Rightarrow>
                         (case or_else (line_group_id fam) None of
                            Some g \<Rightarrow>
                              (case pushMessage e g tp w2 of
                                 (Inr u, w3) \<Rightarrow>
                                   save_topic_and_conversation e fam tp profileId w3 successCount errorCount
                               | (Inl lineError, w3) \<Rightarrow>
                                   (case pushMessage e lineUserId tp w3 of
                                      (Inr u, w4) \<Rightarrow>
                                        save_topic_and_conversation e fam tp profileId w4 successCount errorCount
                                    | (Inl fbError, w4) \<Rightarrow>
                                        (Inr (), w4, successCount, errorCount + 1)))
                          | None \<Rightarrow>
                              (case pushMessage e lineUserId tp w2 of
                                 (Inr u, w3) \<Rightarrow>
                                   save_topic_and_conversation e fam tp profileId w3 successCount errorCount
                               | (Inl lineError, w3) \<Rightarrow>
                                   (Inr (), w3, successCount, errorCount + 1)))))))"

definition GET_part_000_iteration :: "env \<Rightarrow> world \<times> nat \<times> nat \<Rightarrow> family \<Rightarrow> world \<times> nat \<times> nat" where
  "GET_part_000_iteration e st fam =
     (case GET_part_000_family e fam st of
        (Inl x, w, successCount, errorCount) \<Rightarrow> (w, successCount, errorCount + 1)
      | (Inr u, st1) \<Rightarrow> st1)"

definition GET_part_000 :: "env \<Rightarrow> world \<Rightarrow> cron_response \<times> world" where
  "GET_part_000 e w =
     (case db_select e SelectFamilies families w of
        (Inl familiesError, w1) \<Rightarrow> (Failed_to_fetch_families familiesError, w1)
      | (Inr fams, w1) \<Rightarrow>
          if fams = [] then (No_families, w1)
          else
            (case foldl (GET_part_000_iteration e) (w1, 0, 0) fams of
               (w2, successCount, errorCount) \<Rightarrow>
                 (Summary (length fams) successCount errorCount, w2)))"

section \<open>Predicates on the record of calls\<close>

definition is_chat :: "call \<Rightarrow> bool" where
  "is_chat c = (case c of ChatCompletion m \<Rightarrow> True | _ \<Rightarrow> False)"

definition is_topic_insert :: "call \<Rightarrow> bool" where
  "is_topic_insert c = (case c of InsertDailyTopic t \<Rightarrow> True | _ \<Rightarrow> False)"

text \<open>A write of a conversation entry authored by the AI names a family.\<close>

definition ai_row_has_family :: "call \<Rightarrow> bool" where
  "ai_row_has_family c =
     (case c of
        InsertConversation r \<Rightarrow> is_ai_generated r \<longrightarrow> conv_family_id r \<noteq> None
      | _ \<Rightarrow> True)"

text \<open>\<open>w'\<close> comes from \<open>w\<close> by further calls, each of which satisfies \<open>P\<close>.\<close>

definition extends :: "(call \<Rightarrow> bool) \<Rightarrow> world \<Rightarrow> world \<Rightarrow> bool" where
  "extends P w w' =
     (prefix (calls w) (calls w') \<and> list_all P (drop (length (calls w)) (calls w')))"

section \<open>Example deliveries\<close>

definition empty_store :: store where
  "empty_store = \<lparr>profiles = [], families = [], family_members = [], conversations = [],
     daily_topics = [], next_id = 1\<rparr>"

definition empty_world :: world where
  "empty_world = \<lparr>db = empty_store, calls = [], delivered = [], console_errors = []\<rparr>"

definition hello_event :: event where
  "hello_event = \<lparr>event_type = ''message'', message_type = ''text'', message_text = ''hello'',
     source_userId = ''U1'', source_groupId = None, source_roomId = None\<rparr>"

definition hello_request :: request where
  "hello_request = \<lparr>body = ''one text message from U1'', signature_header = ''good''\<rparr>"

definition forged_request :: request where
  "forged_request = \<lparr>body = ''one text message from U1'', signature_header = ''forged''\<rparr>"

text \<open>Every collaborator answers, nobody else writes to the store.\<close>

definition nominal_env :: env where
  "nominal_env = \<lparr>db_error = (\<lambda>n. None), concurrent = (\<lambda>n s. s),
     line_profile_name = (\<lambda>n. Some ''Hana''), push_rejected = (\<lambda>n. False),
     chat_answer = (\<lambda>n. ChatContent (Some '' nice '')), random_below_03 = (\<lambda>n. True),
     channelSecret = ''secret'', validateSignature = (\<lambda>b k sig. sig = ''good''),
     json_events = (\<lambda>b. Some [hello_event]), date_hours = 8, date_month = 3,
     topic_prompt = (\<lambda>s t. ''a topic, please''), history_preamble = ''react to: ''\<rparr>"

text \<open>
  Another delivery creates the Profile of \<open>U1\<close> after this one has looked it up and
  before it inserts (the insert is the call with index 2).
\<close>

definition hana :: profile where
  "hana = \<lparr>profile_id = 7, line_user_id = ''U1'', display_name = ''Hana'', role = ''member''\<rparr>"

definition race_env :: env where
  "race_env = nominal_env\<lparr>concurrent :=
     (\<lambda>n s. if n = 2 then s\<lparr>profiles := profiles s @ [hana]\<rparr> else s)\<rparr>"

definition race_world :: world where
  "race_world = \<lparr>db = empty_store\<lparr>profiles := [hana]\<rparr>,
     calls = [SelectProfileByLineUserId ''U1'', LineGetProfile ''U1'',
              InsertProfile ''U1'' ''Hana'' ''member''],
     delivered = [],
     console_errors = [ProfileCreateError duplicate_key]\<rparr>"

text \<open>A user with a personal family that holds five entries, three human and two AI.\<close>

definition home_talk :: "conversation list" where
  "home_talk =
     [\<lparr>sender_id = 1, conv_family_id = Some 2, content = ''good morning'', is_ai_generated = False\<rparr>,
      \<lparr>sender_id = 1, conv_family_id = Some 2, content = ''sunny!'', is_ai_generated = True\<rparr>,
      \<lparr>sender_id = 1, conv_family_id = Some 2, content = ''lunch?'', is_ai_generated = False\<rparr>,
      \<lparr>sender_id = 1, conv_family_id = Some 2, content = ''yum'', is_ai_generated = True\<rparr>,
      \<lparr>sender_id = 1, conv_family_id = Some 2, content = ''see you'', is_ai_generated = False\<rparr>]"

definition home_store :: store where
  "home_store = \<lparr>profiles = [\<lparr>profile_id = 1, line_user_id = ''U1'', display_name = ''Hana'',
                                role = ''member''\<rparr>],
     families = [\<lparr>family_id = 2, line_group_id = None, family_name = my_home_name\<rparr>],
     family_members = [\<lparr>member_family_id = 2, member_user_id = Some 1, member_profile_id = None\<rparr>],
     conversations = home_talk, daily_topics = [], next_id = 3\<rparr>"

definition home_world :: world where
  "home_world = \<lparr>db = home_store, calls = [], delivered = [], console_errors = []\<rparr>"

text \<open>A sender whose five most recent entries are all AI-generated.\<close>

definition ai_only_store :: store where
  "ai_only_store = home_store\<lparr>conversations :=
     map (\<lambda>c. c\<lparr>conv_family_id := None, is_ai_generated := True\<rparr>) home_talk\<rparr>"

definition ai_only_world :: world where
  "ai_only_world = \<lparr>db = ai_only_store, calls = [], delivered = [], console_errors = []\<rparr>"

text \<open>Three group families A, B and C, each with one member.\<close>

definition family_A :: family where
  "family_A = \<lparr>family_id = 11, line_group_id = Some ''GA'', family_name = group_family_name\<rparr>"

definition family_B :: family where
  "family_B = \<lparr>family_id = 12, line_group_id = Some ''GB'', family_name = group_family_name\<rparr>"

definition family_C :: family where
  "family_C = \<lparr>family_id = 13, line_group_id = Some ''GC'', family_name = group_family_name\<rparr>"

definition three_families :: "family list" where
  "three_families = [family_A, family_B, family_C]"

definition three_families_store :: store where
  "three_families_store = \<lparr>profiles =
       [\<lparr>profile_id = 1, line_user_id = ''U1'', display_name = ''Hana'', role = ''member''\<rparr>,
        \<lparr>profile_id = 2, line_user_id = ''U2'', display_name = ''Ken'', role = ''member''\<rparr>,
        \<lparr>profile_id = 3, line_user_id = ''U3'', display_name = ''Yui'', role = ''member''\<rparr>],
     families = three_families,
     family_members =
       [\<lparr>member_family_id = 11, member_user_id = Some 1, member_profile_id = Some 1\<rparr>,
        \<lparr>member_family_id = 12, member_user_id = Some 2, member_profile_id = Some 2\<rparr>,
        \<lparr>member_family_id = 13, member_user_id = Some 3, member_profile_id = Some 3\<rparr>],
     conversations = [], daily_topics = [], next_id = 20\<rparr>"

definition three_families_world :: world where
  "three_families_world = \<lparr>db = three_families_store, calls = [], delivered = [],
     console_errors = []\<rparr>"

text \<open>The generation call with index \<open>k\<close> fails; every other one returns a topic.\<close>

definition generation_fails_at :: "nat \<Rightarrow> env" where
  "generation_fails_at k = nominal_env\<lparr>chat_answer :=
     (\<lambda>n. if n = k then ChatThrows else ChatContent (Some ''plans for the weekend?''))\<rparr>"

text \<open>The store call with index \<open>k\<close> fails for a reason of the store's own.\<close>

definition store_fails_at :: "nat \<Rightarrow> env" where
  "store_fails_at k = nominal_env\<lparr>db_error :=
     (\<lambda>n. if n = k then Some ''connection reset'' else None)\<rparr>"

text \<open>
  The pushes with an index below 6 are rejected: in either broadcast over the three
  families these are the group push and the fallback push of family A.
\<close>

definition first_family_unreachable_env :: env where
  "first_family_unreachable_env = nominal_env\<lparr>push_rejected := (\<lambda>n. n < 6),
     chat_answer := (\<lambda>n. ChatContent (Some ''plans for the weekend?''))\<rparr>"

text \<open>Every push is rejected.\<close>

definition unreachable_env :: env where
  "unreachable_env = nominal_env\<lparr>push_rejected := (\<lambda>n. True),
     chat_answer := (\<lambda>n. ChatContent (Some ''plans for the weekend?''))\<rparr>"

section \<open>Effects of the primitives\<close>

lemma await_simps [simp]:
  "calls (await e c w) = calls w @ [c]"
  "delivered (await e c w) = delivered w"
  "console_errors (await e c w) = console_errors w"
  "db (await e c w) = concurrent e (length (calls w)) (db w)"
  by (simp_all add: await_def)

lemma console_error_simps [simp]:
  "calls (console_error l w) = calls w"
  "delivered (console_error l w) = delivered w"
  "console_errors (console_error l w) = console_errors w @ [l]"
  "db (console_error l w) = db w"
  by (simp_all add: console_error_def)

lemma db_select_effect:
  "db_select e c q w = (r, w1) \<Longrightarrow> calls w1 = calls w @ [c] \<and> delivered w1 = delivered w"
  by (auto simp: db_select_def Let_def split: option.splits)

lemma db_insert_effect:
  "db_insert e c i w = (r, w1) \<Longrightarrow> calls w1 = calls w @ [c] \<and> delivered w1 = delivered w"
  by (auto simp: db_insert_def Let_def split: option.splits sum.splits)

lemma getProfile_effect:
  "getProfile e u w = (r, w1) \<Longrightarrow> calls w1 = calls w @ [LineGetProfile u] \<and> delivered w1 = delivered w"
  by (auto simp: getProfile_def)

lemma chatCompletion_effect:
  "chatCompletion e m w = (r, w1) \<Longrightarrow>
     calls w1 = calls w @ [ChatCompletion m] \<and> delivered w1 = delivered w"
  by (auto simp: chatCompletion_def Let_def split: chat_result.splits)

lemma pushMessage_effect:
  "pushMessage e t m w = (r, w1) \<Longrightarrow>
     calls w1 = calls w @ [PushMessage t m] \<and>
     delivered w1 = (case r of Inl x \<Rightarrow> delivered w | Inr u \<Rightarrow> delivered w @ [(t, m)])"
  by (auto simp: pushMessage_def Let_def split: if_splits)

lemma mathRandom_effect:
  "mathRandomBelow03 e w = (r, w1) \<Longrightarrow> calls w1 = calls w @ [MathRandom] \<and> delivered w1 = delivered w"
  by (auto simp: mathRandomBelow03_def)

lemmas prim_effects = db_select_effect db_insert_effect getProfile_effect chatCompletion_effect
  pushMessage_effect mathRandom_effect

lemma or_else_None_Some: "or_else t None = Some s \<Longrightarrow> t = Some s \<and> s \<noteq> []"
  by (auto simp: or_else_def truthy_def split: if_splits option.splits)

lemma duplicate_key_includes: "str_includes duplicate_key ''duplicate''"
  by (simp add: duplicate_key_def)

text \<open>
  \<open>trim()\<close> on examples: ASCII space, an ideographic space (U+3000) alone, and a
  no-break space (U+00A0) before a line feed at the end.
\<close>

lemma trim_examples:
  "trim '' nice '' = ''nice''"
  "trim [CHR 0xE3, CHR 0x80, CHR 0x80] = []"
  "trim (''ok'' @ [CHR 0xC2, CHR 0xA0, CHR 0x0A]) = ''ok''"
  "trim ''plans for the weekend?'' = ''plans for the weekend?''"
  by (simp_all add: trim_def white_space_def leading_space_def)

lemmas example_defs = empty_store_def empty_world_def hello_event_def hello_request_def
  forged_request_def nominal_env_def hana_def race_env_def race_world_def home_talk_def
  home_store_def home_world_def ai_only_store_def ai_only_world_def family_A_def family_B_def
  family_C_def first_family_unreachable_env_def three_families_def
  three_families_store_def three_families_world_def generation_fails_at_def unreachable_env_def
  store_fails_at_def

lemmas prim_defs = await_def db_select_def db_insert_def single_def data_of_def error_of_def
  console_error_def getProfile_def pushMessage_def chatCompletion_def mathRandomBelow03_def
  insert_profile_def insert_family_def insert_family_member_def insert_conversation_def
  insert_daily_topic_def truthy_def or_else_def or_string_def trim_def white_space_def
  leading_space_def

section \<open>Identity resolution\<close>

text \<open>
  C1 (amended). When the insert of a new Profile fails with a unique violation because
  the platform user id was created concurrently (absent at the lookup, present when the
  insert runs), \<open>getOrCreateUserProfile\<close> writes the error to the console and returns
  null: the calls it makes are the lookup, the platform profile request and the insert,
  and no second read. \<open>POST\<close> skips the event (no family resolution, no entry in the
  log), goes on with the events that follow, and answers 200.
\<close>

theorem profile_insert_conflict_skips_event:
  assumes lookup: "db_error e (length (calls w)) = None"
      and absent: "\<not> list_ex (\<lambda>p. line_user_id p = uid)
                      (profiles (concurrent e (length (calls w)) (db w)))"
      and ins: "db_error e (length (calls w) + 2) = None"
      and s2: "s2 = concurrent e (length (calls w) + 2)
                 (concurrent e (length (calls w) + 1) (concurrent e (length (calls w)) (db w)))"
      and present: "list_ex (\<lambda>p. line_user_id p = uid) (profiles s2)"
      and name: "name = (case line_profile_name e (length (calls w) + 1) of
                           Some d \<Rightarrow> d | None \<Rightarrow> ''Guest'')"
      and w': "w' = w\<lparr>db := s2,
                      calls := calls w @ [SelectProfileByLineUserId uid, LineGetProfile uid,
                                 InsertProfile uid name ''member''],
                      console_errors := console_errors w @ [ProfileCreateError duplicate_key]\<rparr>"
      and ev: "event_type ev = ''message''" "message_type ev = ''text''" "source_userId ev = uid"
  shows "getOrCreateUserProfile e uid w = (None, w')
     \<and> process_event e ev w = (Inr (), w')
     \<and> process_events e (ev # evs) w = process_events e evs w'
     \<and> (validateSignature e (body req) (channelSecret e) (signature_header req)
          \<and> json_events e (body req) = Some [ev]
        \<longrightarrow> POST e req w = (Response ''OK'' 200, w'))"
proof -
  have nil: "filter (\<lambda>p. line_user_id p = uid) (profiles (concurrent e (length (calls w)) (db w))) = []"
    using absent by (simp add: list_ex_iff filter_empty_conv)
  have prof: "getOrCreateUserProfile e uid w = (None, w')"
    using lookup ins present
    by (simp add: getOrCreateUserProfile_def db_select_def db_insert_def getProfile_def
        single_def data_of_def insert_profile_def nil s2 name w' await_def console_error_def Let_def)
  have one: "process_event e ev w = (Inr (), w')"
    using prof ev by (simp add: process_event_def Let_def)
  have many: "process_events e (ev # evs) w = process_events e evs w'"
    by (simp add: one)
  have "process_events e [ev] w = (Inr (), w')"
    by (simp add: one)
  then have post: "validateSignature e (body req) (channelSecret e) (signature_header req)
          \<and> json_events e (body req) = Some [ev]
        \<longrightarrow> POST e req w = (Response ''OK'' 200, w')"
    by (simp add: POST_def)
  from prof one many post show ?thesis
    by blast
qed

theorem profile_insert_conflict_skips_event_witness:
  "getOrCreateUserProfile race_env ''U1'' empty_world = (None, race_world)
   \<and> POST race_env hello_request empty_world = (Response ''OK'' 200, race_world)"
proof -
  have h1: "db_error race_env (length (calls empty_world)) = None"
    by (simp add: example_defs)
  have h2: "\<not> list_ex (\<lambda>p. line_user_id p = ''U1'')
              (profiles (concurrent race_env (length (calls empty_world)) (db empty_world)))"
    by (simp add: example_defs)
  have h3: "db_error race_env (length (calls empty_world) + 2) = None"
    by (simp add: example_defs)
  have h4: "db race_world = concurrent race_env (length (calls empty_world) + 2)
              (concurrent race_env (length (calls empty_world) + 1)
                (concurrent race_env (length (calls empty_world)) (db empty_world)))"
    by (simp add: example_defs)
  have h5: "list_ex (\<lambda>p. line_user_id p = ''U1'') (profiles (db race_world))"
    by (simp add: example_defs)
  have h6: "''Hana'' = (case line_profile_name race_env (length (calls empty_world) + 1) of
                         Some d \<Rightarrow> d | None \<Rightarrow> ''Guest'')"
    by (simp add: example_defs)
  have h7: "race_world = empty_world\<lparr>db := db race_world,
              calls := calls empty_world @ [SelectProfileByLineUserId ''U1'', LineGetProfile ''U1'',
                         InsertProfile ''U1'' ''Hana'' ''member''],
              console_errors := console_errors empty_world @ [ProfileCreateError duplicate_key]\<rparr>"
    by (simp add: example_defs)
  have h8: "event_type hello_event = ''message''" "message_type hello_event = ''text''"
    "source_userId hello_event = ''U1''"
    by (simp_all add: example_defs)
  have v: "validateSignature race_env (body hello_request) (channelSecret race_env)
             (signature_header hello_request)"
    "json_events race_env (body hello_request) = Some [hello_event]"
    by (simp_all add: example_defs)
  from profile_insert_conflict_skips_event[OF h1 h2 h3 h4 h5 h6 h7 h8, of "[]" hello_request] v
  show ?thesis
    by blast
qed

text \<open>
  The claim as stated fails: the Profile of \<open>U1\<close> exists (with id 7) when the insert
  runs, the insert fails with the duplicate-key error, and the result is null, not 7;
  the event writes no entry to the conversation log.
\<close>

theorem profile_insert_conflict_counterexample:
  "fst (getOrCreateUserProfile race_env ''U1'' empty_world) \<noteq> Some 7
   \<and> map profile_id (filter (\<lambda>p. line_user_id p = ''U1'')
        (profiles (db (snd (getOrCreateUserProfile race_env ''U1'' empty_world))))) = [7]
   \<and> console_errors (snd (getOrCreateUserProfile race_env ''U1'' empty_world)) =
        [ProfileCreateError duplicate_key]
   \<and> conversations (db (snd (POST race_env hello_request empty_world))) = []"
  by (simp add: POST_def process_event_def getOrCreateUserProfile_def prim_defs example_defs Let_def)

section \<open>Family resolution\<close>

text \<open>
  C3 (amended). A profile whose personal families (the families without a
  group-channel id it is a member of) are exactly the family \<open>F\<close>: provided the store
  answers the membership lookup, a 1:1 event resolves to \<open>F\<close>; the calls made are the
  lookup and the membership insert, no Family is inserted, and the Family rows are
  those other deliveries left.
\<close>

theorem personal_family_reused:
  assumes ok: "db_error e (length (calls w)) = None"
      and s0: "s0 = concurrent e (length (calls w)) (db w)"
      and fam: "{member_family_id m | m. m \<in> set (family_members s0) \<and> member_user_id m = Some p \<and>
                 (\<exists>f \<in> set (families s0). family_id f = member_family_id m \<and> line_group_id f = None)}
                = {F}"
  shows "fst (getOrCreateFamily e p u None w) = Some F
     \<and> calls (snd (getOrCreateFamily e p u None w)) =
         calls w @ [SelectPersonalMembership p, InsertFamilyMember F p]
     \<and> families (db (snd (getOrCreateFamily e p u None w))) =
         families (concurrent e (length (calls w) + 1) s0)"
proof -
  let ?ms = "filter (\<lambda>m. member_user_id m = Some p \<and>
                list_ex (\<lambda>f. family_id f = member_family_id m \<and> line_group_id f = None) (families s0))
              (family_members s0)"
  have "member_family_id ` set ?ms =
        {member_family_id m | m. m \<in> set (family_members s0) \<and> member_user_id m = Some p \<and>
           (\<exists>f \<in> set (families s0). family_id f = member_family_id m \<and> line_group_id f = None)}"
    by (auto simp: list_ex_iff)
  with fam have sub: "member_family_id ` set ?ms = {F}"
    by simp
  then obtain m ms where ms: "?ms = m # ms"
    by (cases ?ms) auto
  with sub have mF: "member_family_id m = F"
    by auto
  have pm: "personal_memberships p s0 = [m]"
    by (simp add: personal_memberships_def ms)
  have det: "determine_family e p None w = (Some F, await e (SelectPersonalMembership p) w)"
    using ok pm mF
    by (simp add: determine_family_def family_of_person_def db_select_def data_of_def s0 Let_def)
  show ?thesis
    using det
    by (auto simp add: getOrCreateFamily_def register_member_def db_insert_def error_of_def
      insert_family_member_def Let_def s0 split: option.splits sum.splits)
qed

theorem personal_family_reused_witness:
  "fst (getOrCreateFamily nominal_env 1 ''U1'' None home_world) = Some 2
   \<and> calls (snd (getOrCreateFamily nominal_env 1 ''U1'' None home_world)) =
       calls home_world @ [SelectPersonalMembership 1, InsertFamilyMember 2 1]
   \<and> families (db (snd (getOrCreateFamily nominal_env 1 ''U1'' None home_world))) =
       families (concurrent nominal_env (length (calls home_world) + 1) (db home_world))"
proof -
  have h1: "db_error nominal_env (length (calls home_world)) = None"
    by (simp add: example_defs)
  have h2: "db home_world = concurrent nominal_env (length (calls home_world)) (db home_world)"
    by (simp add: example_defs)
  have h3: "{member_family_id m | m. m \<in> set (family_members (db home_world)) \<and>
              member_user_id m = Some 1 \<and>
              (\<exists>f \<in> set (families (db home_world)).
                 family_id f = member_family_id m \<and> line_group_id f = None)} = {2}"
    by (auto simp: example_defs)
  show ?thesis
    by (rule personal_family_reused[OF h1 h2 h3])
qed

text \<open>
  The claim as stated fails: \<open>getOrCreateFamily\<close> does not read the error of the
  lookup and takes a lookup that failed for one that found nothing. Profile 1 is a
  member of the personal family 2, the store fails the lookup, and the event resolves
  to a new personal family 3.
\<close>

theorem personal_family_lookup_error_counterexample:
  "personal_memberships 1 (db home_world) =
     [\<lparr>member_family_id = 2, member_user_id = Some 1, member_profile_id = None\<rparr>]
   \<and> fst (getOrCreateFamily (store_fails_at 0) 1 ''U1'' None home_world) = Some 3
   \<and> map family_id (families (db (snd (getOrCreateFamily (store_fails_at 0) 1 ''U1'' None home_world))))
       = [2, 3]
   \<and> map line_group_id
         (families (db (snd (getOrCreateFamily (store_fails_at 0) 1 ''U1'' None home_world))))
       = [None, None]"
  by (simp add: getOrCreateFamily_def determine_family_def family_of_person_def
      personal_memberships_def register_member_def prim_defs example_defs Let_def)

section \<open>AI participation\<close>

text \<open>
  C4 (amended). The family-scoped policy, given a family with five entries in the
  log: when no other delivery writes to the store, the generation service returns a text
  that is not empty after trimming, the push is accepted and the store answers the
  write, the reply is pushed to the reply target and one entry is appended to the log,
  AI-generated, under the same family id. The prompt is the five contents in
  chronological order, human and AI alike, joined by newlines, when the store answers
  the read of the history; when the read fails the prompt is empty.
\<close>

theorem family_scoped_reply:
  assumes quiet: "concurrent e = (\<lambda>n s. s)"
      and hist: "hist = filter (\<lambda>c. conv_family_id c = Some f) (conversations (db w))"
      and five: "length hist = 5"
      and prompt: "prompt = (if db_error e (length (calls w)) = None
                             then join_lines (map content hist) else [])"
      and gen: "chat_answer e (length (calls w) + 1) = ChatContent (Some t)"
      and nonempty: "trim t \<noteq> []"
      and push: "\<not> push_rejected e (length (calls w) + 2)"
      and ins: "db_error e (length (calls w) + 3) = None"
      and row: "row = \<lparr>sender_id = sender, conv_family_id = Some f, content = trim t,
                        is_ai_generated = True\<rparr>"
  shows "handleAIResponse e (Some f) sender target w =
           (Inr (), w\<lparr>db := (db w)\<lparr>conversations := conversations (db w) @ [row]\<rparr>,
                      calls := calls w @ [SelectConversationsByFamily f, ChatCompletion prompt,
                                 PushMessage target (trim t), InsertConversation row],
                      delivered := delivered w @ [(target, trim t)]\<rparr>)"
proof -
  have recent: "recent_of_family f (db w) = rev hist"
    using five by (simp add: recent_of_family_def hist)
  show ?thesis
  proof (cases "db_error e (length (calls w))")
    case None
    then show ?thesis
      using gen nonempty push ins
      by (simp add: handleAIResponse_def db_select_def db_insert_def chatCompletion_def
          pushMessage_def insert_conversation_def data_of_def await_def quiet recent row prompt
          Let_def eval_nat_numeral)
  next
    case (Some m)
    then show ?thesis
      using gen nonempty push ins
      by (simp add: handleAIResponse_def db_select_def db_insert_def chatCompletion_def
          pushMessage_def insert_conversation_def data_of_def await_def quiet row prompt
          Let_def eval_nat_numeral)
  qed
qed

theorem family_scoped_reply_witness:
  "handleAIResponse nominal_env (Some 2) 1 ''U1'' home_world =
     (Inr (), home_world\<lparr>db := (db home_world)\<lparr>conversations := conversations (db home_world) @
                   [\<lparr>sender_id = 1, conv_family_id = Some 2, content = trim '' nice '',
                     is_ai_generated = True\<rparr>]\<rparr>,
                calls := calls home_world @ [SelectConversationsByFamily 2,
                           ChatCompletion (join_lines (map content home_talk)),
                           PushMessage ''U1'' (trim '' nice ''),
                           InsertConversation \<lparr>sender_id = 1, conv_family_id = Some 2,
                             content = trim '' nice '', is_ai_generated = True\<rparr>],
                delivered := delivered home_world @ [(''U1'', trim '' nice '')]\<rparr>)"
proof -
  have h1: "concurrent nominal_env = (\<lambda>n s. s)"
    by (simp add: example_defs)
  have h2: "join_lines (map content home_talk) =
      (if db_error nominal_env (length (calls home_world)) = None
       then join_lines (map content home_talk) else [])"
    by (simp add: example_defs)
  have h3: "home_talk = filter (\<lambda>c. conv_family_id c = Some 2) (conversations (db home_world))"
    by (simp add: example_defs)
  have h4: "length home_talk = 5"
    by (simp add: example_defs)
  have h5: "chat_answer nominal_env (length (calls home_world) + 1) = ChatContent (Some '' nice '')"
    by (simp add: example_defs)
  have h6: "trim '' nice '' \<noteq> []"
    by (simp add: trim_examples)
  have h7: "\<not> push_rejected nominal_env (length (calls home_world) + 2)"
    by (simp add: example_defs)
  have h8: "db_error nominal_env (length (calls home_world) + 3) = None"
    by (simp add: example_defs)
  show ?thesis
    by (rule family_scoped_reply[OF h1 h3 h4 h2 h5 h6 h7 h8 refl])
qed

text \<open>
  The claim as stated fails: the family has five entries and the generation service
  returns a text, but the store fails the read of the history; the prompt is empty, not
  the five entries, and the reply is pushed and logged all the same.
\<close>

theorem family_scoped_reply_read_error_counterexample:
  "length (filter (\<lambda>c. conv_family_id c = Some 2) (conversations (db home_world))) = 5
   \<and> join_lines (map content home_talk) \<noteq> []
   \<and> chat_answer (store_fails_at 0) 1 = ChatContent (Some '' nice '')
   \<and> calls (snd (handleAIResponse (store_fails_at 0) (Some 2) 1 ''U1'' home_world)) =
       [SelectConversationsByFamily 2, ChatCompletion [], PushMessage ''U1'' ''nice'',
        InsertConversation \<lparr>sender_id = 1, conv_family_id = Some 2, content = ''nice'',
          is_ai_generated = True\<rparr>]
   \<and> delivered (snd (handleAIResponse (store_fails_at 0) (Some 2) 1 ''U1'' home_world)) =
       [(''U1'', ''nice'')]"
  by (simp add: handleAIResponse_def recent_of_family_def prim_defs example_defs Let_def)

text \<open>
  C5. The sender-scoped policy reads the five most recent entries of the sender. When
  none of them is human (all are AI-generated, or there is none), it returns after the
  read: no generation call, no push, no write. When the store answers and a human entry
  is among them, the call that follows the read is the generation call, and its prompt
  holds the contents of the human entries only, in chronological order.
\<close>

theorem sender_scoped_filters_ai_rows:
  assumes cs: "cs = recent_of_sender p (concurrent e (length (calls w)) (db w))"
      and w': "w' = snd (handleAIResponse_degraded e p u w)"
  shows "((\<forall>c \<in> set cs. is_ai_generated c) \<longrightarrow>
            fst (handleAIResponse_degraded e p u w) = Inr ()
          \<and> calls w' = calls w @ [SelectConversationsBySender p]
          \<and> delivered w' = delivered w
          \<and> db w' = concurrent e (length (calls w)) (db w))
       \<and> (db_error e (length (calls w)) = None \<and> \<not> (\<forall>c \<in> set cs. is_ai_generated c) \<longrightarrow>
            take (length (calls w) + 2) (calls w') =
              calls w @ [SelectConversationsBySender p,
                ChatCompletion (history_preamble e @
                  join_lines (map content (filter (\<lambda>c. \<not> is_ai_generated c) (rev cs))))])"
proof (intro conjI impI)
  assume ai: "\<forall>c \<in> set cs. is_ai_generated c"
  then have nil: "filter (\<lambda>c. \<not> is_ai_generated c) cs = []"
    by (simp add: filter_empty_conv)
  have "handleAIResponse_degraded e p u w = (Inr (), snd (handleAIResponse_degraded e p u w))
      \<and> calls w' = calls w @ [SelectConversationsBySender p]
      \<and> delivered w' = delivered w
      \<and> db w' = concurrent e (length (calls w)) (db w)"
    using nil
    by (simp add: handleAIResponse_degraded_def db_select_def w' cs[symmetric] Let_def
        split: option.splits)
  then show "fst (handleAIResponse_degraded e p u w) = Inr ()"
    and "calls w' = calls w @ [SelectConversationsBySender p]"
    and "delivered w' = delivered w"
    and "db w' = concurrent e (length (calls w)) (db w)"
    by (simp_all add: prod_eq_iff)
next
  assume h: "db_error e (length (calls w)) = None \<and> \<not> (\<forall>c \<in> set cs. is_ai_generated c)"
  then have ne: "filter (\<lambda>c. \<not> is_ai_generated c) (rev cs) \<noteq> []" "cs \<noteq> []"
    by (auto simp: filter_empty_conv)
  show "take (length (calls w) + 2) (calls w') =
              calls w @ [SelectConversationsBySender p,
                ChatCompletion (history_preamble e @
                  join_lines (map content (filter (\<lambda>c. \<not> is_ai_generated c) (rev cs))))]"
    using h ne
    by (simp add: handleAIResponse_degraded_def db_select_def db_insert_def chatCompletion_def
        pushMessage_def w' cs[symmetric] Let_def rev_map rev_filter or_else_def truthy_def
        split: option.splits chat_result.splits sum.splits prod.splits)
qed

theorem sender_scoped_filters_ai_rows_witness:
  "fst (handleAIResponse_degraded nominal_env 1 ''U1'' ai_only_world) = Inr ()
   \<and> calls (snd (handleAIResponse_degraded nominal_env 1 ''U1'' ai_only_world)) =
       calls ai_only_world @ [SelectConversationsBySender 1]
   \<and> delivered (snd (handleAIResponse_degraded nominal_env 1 ''U1'' ai_only_world)) =
       delivered ai_only_world
   \<and> db (snd (handleAIResponse_degraded nominal_env 1 ''U1'' ai_only_world)) = db ai_only_world
   \<and> take (length (calls home_world) + 2)
       (calls (snd (handleAIResponse_degraded nominal_env 1 ''U1'' home_world))) =
       calls home_world @ [SelectConversationsBySender 1,
         ChatCompletion (''react to: '' @ join_lines [''good morning'', ''lunch?'', ''see you''])]"
proof -
  let ?cs = "recent_of_sender 1 (concurrent nominal_env (length (calls ai_only_world)) (db ai_only_world))"
  let ?hs = "recent_of_sender 1 (concurrent nominal_env (length (calls home_world)) (db home_world))"
  have a: "\<forall>c \<in> set ?cs. is_ai_generated c"
    by (simp add: recent_of_sender_def example_defs)
  have q: "concurrent nominal_env (length (calls ai_only_world)) (db ai_only_world) = db ai_only_world"
    by (simp add: example_defs)
  have b: "db_error nominal_env (length (calls home_world)) = None \<and> \<not> (\<forall>c \<in> set ?hs. is_ai_generated c)"
    by (simp add: recent_of_sender_def example_defs)
  have c: "history_preamble nominal_env @
             join_lines (map content (filter (\<lambda>c. \<not> is_ai_generated c) (rev ?hs))) =
           ''react to: '' @ join_lines [''good morning'', ''lunch?'', ''see you'']"
    by (simp add: recent_of_sender_def example_defs)
  from sender_scoped_filters_ai_rows[OF refl refl, where e = nominal_env and p = 1
         and w = ai_only_world and u = "''U1''"]
       sender_scoped_filters_ai_rows[OF refl refl, where e = nominal_env and p = 1
         and w = home_world and u = "''U1''"] a b
  show ?thesis
    unfolding q c by blast
qed

text \<open>The calls of the group-aware webhook never write an AI entry without a family.\<close>

lemma extends_iff: "extends P w w' \<longleftrightarrow> (\<exists>cs. calls w' = calls w @ cs \<and> list_all P cs)"
  by (auto simp: extends_def prefix_def)

lemma extends_refl: "extends P w w"
  by (simp add: extends_iff)

lemma extends_trans: "extends P w w1 \<Longrightarrow> extends P w1 w2 \<Longrightarrow> extends P w w2"
  by (auto simp: extends_iff)

lemma extends_console_error: "extends P w w1 \<Longrightarrow> extends P w (console_error l w1)"
  by (simp add: extends_iff)

lemma ai_row_has_family_simps [simp]:
  "ai_row_has_family (SelectProfileByLineUserId u)"
  "ai_row_has_family (LineGetProfile u)"
  "ai_row_has_family (InsertProfile u n r)"
  "ai_row_has_family (SelectFamilyByGroupId g)"
  "ai_row_has_family (InsertFamily go n)"
  "ai_row_has_family (SelectPersonalMembership p)"
  "ai_row_has_family (InsertFamilyMember f p)"
  "ai_row_has_family (SelectConversationsByFamily f)"
  "ai_row_has_family (ChatCompletion m)"
  "ai_row_has_family (PushMessage t m)"
  "ai_row_has_family MathRandom"
  "ai_row_has_family (InsertConversation row) = (is_ai_generated row \<longrightarrow> conv_family_id row \<noteq> None)"
  by (simp_all add: ai_row_has_family_def)

lemma getOrCreateUserProfile_extends:
  "getOrCreateUserProfile e u w = (r, w') \<Longrightarrow> extends ai_row_has_family w w'"
  unfolding getOrCreateUserProfile_def Let_def
  by (auto simp: extends_iff split: prod.splits option.splits sum.splits dest!: prim_effects)

lemma family_of_group_extends:
  "family_of_group e g w = (r, w') \<Longrightarrow> extends ai_row_has_family w w'"
  unfolding family_of_group_def
  by (auto simp: extends_iff split: prod.splits option.splits dest!: prim_effects)

lemma family_of_person_extends:
  "family_of_person e p w = (r, w') \<Longrightarrow> extends ai_row_has_family w w'"
  unfolding family_of_person_def
  by (auto simp: extends_iff split: prod.splits option.splits list.splits dest!: prim_effects)

lemma register_member_extends:
  "extends ai_row_has_family w (register_member e f p w)"
  unfolding register_member_def
  by (auto simp: extends_iff split: prod.splits option.splits dest!: prim_effects)

lemma getOrCreateFamily_extends:
  "getOrCreateFamily e p u g w = (r, w') \<Longrightarrow> extends ai_row_has_family w w'"
  unfolding getOrCreateFamily_def determine_family_def
  by (auto split: prod.splits option.splits if_splits
      intro: extends_trans[OF family_of_group_extends register_member_extends]
             extends_trans[OF family_of_person_extends register_member_extends]
             family_of_group_extends family_of_person_extends)

lemma handleAIResponse_extends:
  "handleAIResponse e fam s t w = (r, w') \<Longrightarrow> extends ai_row_has_family w w'"
  unfolding handleAIResponse_def Let_def
  by (auto simp: extends_iff split: prod.splits option.splits sum.splits if_splits
      dest!: prim_effects)

lemma process_event_extends:
  assumes pe: "process_event e ev w = (r, w')"
  shows "extends ai_row_has_family w w'"
proof (cases "event_type ev \<noteq> ''message'' \<or> message_type ev \<noteq> ''text''")
  case True
  with pe show ?thesis by (simp add: process_event_def extends_refl)
next
  case False
  obtain po w1 where p: "getOrCreateUserProfile e (source_userId ev) w = (po, w1)"
    by (cases "getOrCreateUserProfile e (source_userId ev) w")
  note e1 = getOrCreateUserProfile_extends[OF p]
  show ?thesis
  proof (cases po)
    case None
    with pe False p e1 show ?thesis by (simp add: process_event_def)
  next
    case (Some pid)
    let ?g = "or_else (or_else (source_groupId ev) (source_roomId ev)) None"
    obtain fam w2 where f: "getOrCreateFamily e pid (source_userId ev) ?g w1 = (fam, w2)"
      by (cases "getOrCreateFamily e pid (source_userId ev) ?g w1")
    note e2 = extends_trans[OF e1 getOrCreateFamily_extends[OF f]]
    let ?row = "\<lparr>sender_id = pid, conv_family_id = fam, content = message_text ev,
                  is_ai_generated = False\<rparr>"
    obtain r3 w3 where i: "db_insert e (InsertConversation ?row) (insert_conversation ?row) w2 = (r3, w3)"
      by (cases "db_insert e (InsertConversation ?row) (insert_conversation ?row) w2")
    have "extends ai_row_has_family w2 w3"
      using db_insert_effect[OF i] by (simp add: extends_iff)
    note e3 = extends_trans[OF e2 this]
    obtain hit w4 where m: "mathRandomBelow03 e w3 = (hit, w4)"
      by (cases "mathRandomBelow03 e w3")
    have "extends ai_row_has_family w3 w4"
      using mathRandom_effect[OF m] by (simp add: extends_iff)
    note e4 = extends_trans[OF e3 this]
    show ?thesis
      using pe False p Some f i m e3 e4
      by (auto simp: process_event_def Let_def split: if_splits
          intro: extends_trans[OF e4 handleAIResponse_extends])
  qed
qed

lemma process_events_extends:
  "process_events e evs w = (r, w') \<Longrightarrow> extends ai_row_has_family w w'"
proof (induction evs arbitrary: w)
  case Nil
  then show ?case by (simp add: extends_refl)
next
  case (Cons ev evs)
  obtain r1 w1 where pe: "process_event e ev w = (r1, w1)"
    by (cases "process_event e ev w")
  note e1 = process_event_extends[OF pe]
  show ?case
  proof (cases r1)
    case (Inl x)
    with Cons.prems pe e1 show ?thesis by simp
  next
    case (Inr u)
    with Cons.prems pe have "process_events e evs w1 = (r, w')" by simp
    from extends_trans[OF e1 Cons.IH[OF this]] show ?thesis .
  qed
qed

lemma POST_extends: "extends ai_row_has_family w (snd (POST e req w))"
  by (auto simp: POST_def extends_refl split: option.splits prod.splits sum.splits
      dest: process_events_extends intro: extends_console_error)

text \<open>
  C9. In the group-aware webhook, \<open>handleAIResponse\<close> with a null family id returns
  at once and leaves everything as it was; every conversation entry that a delivery
  writes as AI-generated has a family id; and for a text message whose sender has a
  Profile, when no family could be resolved or the store rejects the write of the human
  entry, that write is the last call made for the event: no trial, no generation, no
  push, no AI entry.
\<close>

theorem ai_entries_have_a_family:
  "handleAIResponse e None sender target w = (Inr (), w)
   \<and> (\<forall>row. InsertConversation row \<in> set (drop (length (calls w)) (calls (snd (POST e req w))))
          \<and> is_ai_generated row \<longrightarrow> conv_family_id row \<noteq> None)
   \<and> (event_type ev = ''message'' \<and> message_type ev = ''text''
       \<and> getOrCreateUserProfile e (source_userId ev) w = (Some pid, w1)
       \<and> getOrCreateFamily e pid (source_userId ev)
            (or_else (or_else (source_groupId ev) (source_roomId ev)) None) w1 = (fam, w2)
       \<and> (fam = None \<or> db_error e (length (calls w2)) \<noteq> None)
      \<longrightarrow> fst (process_event e ev w) = Inr ()
        \<and> calls (snd (process_event e ev w)) =
            calls w2 @ [InsertConversation \<lparr>sender_id = pid, conv_family_id = fam,
                           content = message_text ev, is_ai_generated = False\<rparr>])"
proof (intro conjI allI impI)
  show "handleAIResponse e None sender target w = (Inr (), w)"
    by (simp add: handleAIResponse_def)
next
  fix row
  assume a: "InsertConversation row \<in> set (drop (length (calls w)) (calls (snd (POST e req w))))
          \<and> is_ai_generated row"
  have "list_all ai_row_has_family (drop (length (calls w)) (calls (snd (POST e req w))))"
    using POST_extends[of w e req] by (simp add: extends_def)
  with a have "ai_row_has_family (InsertConversation row)"
    by (auto simp: list_all_iff)
  with a show "conv_family_id row \<noteq> None"
    by simp
next
  assume a: "event_type ev = ''message'' \<and> message_type ev = ''text''
       \<and> getOrCreateUserProfile e (source_userId ev) w = (Some pid, w1)
       \<and> getOrCreateFamily e pid (source_userId ev)
            (or_else (or_else (source_groupId ev) (source_roomId ev)) None) w1 = (fam, w2)
       \<and> (fam = None \<or> db_error e (length (calls w2)) \<noteq> None)"
  let ?row = "\<lparr>sender_id = pid, conv_family_id = fam, content = message_text ev,
                is_ai_generated = False\<rparr>"
  obtain r3 w3 where i: "db_insert e (InsertConversation ?row) (insert_conversation ?row) w2 = (r3, w3)"
    by (cases "db_insert e (InsertConversation ?row) (insert_conversation ?row) w2")
  have cond: "\<not> (error_of r3 = None \<and> fam \<noteq> None)"
    using a i by (auto simp: db_insert_def error_of_def Let_def)
  have pe: "process_event e ev w = (Inr (), w3)"
    using a i cond by (auto simp: process_event_def Let_def)
  show "fst (process_event e ev w) = Inr ()"
    by (simp add: pe)
  show "calls (snd (process_event e ev w)) = calls w2 @ [InsertConversation ?row]"
    using db_insert_effect[OF i] by (simp add: pe)
qed

lemmas webhook_defs = POST_def process_event_def getOrCreateUserProfile_def
  getOrCreateFamily_def determine_family_def family_of_group_def family_of_person_def
  personal_memberships_def register_member_def handleAIResponse_def recent_of_family_def

theorem ai_entries_have_a_family_witness:
  "handleAIResponse nominal_env None 1 ''U1'' home_world = (Inr (), home_world)
   \<and> InsertConversation \<lparr>sender_id = 1, conv_family_id = Some 2, content = ''nice'',
        is_ai_generated = True\<rparr>
       \<in> set (drop (length (calls home_world)) (calls (snd (POST nominal_env hello_request home_world))))
   \<and> conv_family_id \<lparr>sender_id = 1, conv_family_id = Some 2, content = ''nice'',
        is_ai_generated = True\<rparr> \<noteq> None
   \<and> fst (process_event (store_fails_at 3) hello_event home_world) = Inr ()
   \<and> calls (snd (process_event (store_fails_at 3) hello_event home_world)) =
       [SelectProfileByLineUserId ''U1'', SelectPersonalMembership 1, InsertFamilyMember 2 1,
        InsertConversation \<lparr>sender_id = 1, conv_family_id = Some 2,
          content = message_text hello_event, is_ai_generated = False\<rparr>]"
proof -
  let ?row = "\<lparr>sender_id = 1, conv_family_id = Some 2, content = ''nice'', is_ai_generated = True\<rparr>"
  let ?e = "store_fails_at 3"
  let ?w1 = "snd (getOrCreateUserProfile ?e (source_userId hello_event) home_world)"
  let ?w2 = "snd (getOrCreateFamily ?e 1 (source_userId hello_event)
                (or_else (or_else (source_groupId hello_event) (source_roomId hello_event)) None) ?w1)"
  have m: "InsertConversation ?row
       \<in> set (drop (length (calls home_world)) (calls (snd (POST nominal_env hello_request home_world))))
       \<and> is_ai_generated ?row"
    by (simp add: webhook_defs prim_defs example_defs Let_def)
  have t: "event_type hello_event = ''message'' \<and> message_type hello_event = ''text''"
    by (simp add: example_defs)
  have p: "getOrCreateUserProfile ?e (source_userId hello_event) home_world = (Some 1, ?w1)"
    by (simp add: webhook_defs prim_defs example_defs Let_def)
  have f: "getOrCreateFamily ?e 1 (source_userId hello_event)
            (or_else (or_else (source_groupId hello_event) (source_roomId hello_event)) None) ?w1
           = (Some 2, ?w2)"
    by (simp add: webhook_defs prim_defs example_defs Let_def)
  have c: "calls ?w2 = [SelectProfileByLineUserId ''U1'', SelectPersonalMembership 1, InsertFamilyMember 2 1]"
    by (simp add: webhook_defs prim_defs example_defs Let_def)
  have d: "db_error ?e (length (calls ?w2)) \<noteq> None"
    unfolding c by (simp add: example_defs)
  from ai_entries_have_a_family[where e = nominal_env and w = home_world and req = hello_request
        and sender = 1 and target = "''U1''" and ev = hello_event and pid = 1 and fam = "Some 2"
        and ?w1.0 = home_world and ?w2.0 = home_world] m
  have part1: "handleAIResponse nominal_env None 1 ''U1'' home_world = (Inr (), home_world)
      \<and> conv_family_id ?row \<noteq> None"
    by blast
  from ai_entries_have_a_family[where e = ?e and w = home_world and req = hello_request
        and sender = 1 and target = "''U1''" and ev = hello_event and pid = 1 and fam = "Some 2"
        and ?w1.0 = ?w1 and ?w2.0 = ?w2] t p f d
  have part2: "fst (process_event ?e hello_event home_world) = Inr ()
      \<and> calls (snd (process_event ?e hello_event home_world)) =
            calls ?w2 @ [InsertConversation \<lparr>sender_id = 1, conv_family_id = Some 2,
                           content = message_text hello_event, is_ai_generated = False\<rparr>]"
    by blast
  from part1 part2 m show ?thesis
    unfolding c by simp
qed

section \<open>The membership insert\<close>

lemma process_event_logs_message:
  assumes ev: "event_type ev = ''message''" "message_type ev = ''text''"
      and p: "getOrCreateUserProfile e (source_userId ev) w = (Some pid, w1)"
      and f: "getOrCreateFamily e pid (source_userId ev)
                (or_else (or_else (source_groupId ev) (source_roomId ev)) None) w1 = (fam, w2)"
  shows "prefix (calls w2 @ [InsertConversation \<lparr>sender_id = pid, conv_family_id = fam,
            content = message_text ev, is_ai_generated = False\<rparr>])
           (calls (snd (process_event e ev w)))"
proof -
  let ?row = "\<lparr>sender_id = pid, conv_family_id = fam, content = message_text ev,
                is_ai_generated = False\<rparr>"
  let ?g = "or_else (or_else (source_groupId ev) (source_roomId ev)) None"
  obtain r3 w3 where i: "db_insert e (InsertConversation ?row) (insert_conversation ?row) w2 = (r3, w3)"
    by (cases "db_insert e (InsertConversation ?row) (insert_conversation ?row) w2")
  have c3: "calls w3 = calls w2 @ [InsertConversation ?row]"
    using db_insert_effect[OF i] by simp
  obtain hit w4 where m: "mathRandomBelow03 e w3 = (hit, w4)"
    by (cases "mathRandomBelow03 e w3")
  have c4: "prefix (calls w3) (calls w4)"
    using mathRandom_effect[OF m] by simp
  obtain r5 w5 where h: "handleAIResponse e fam pid (or_string ?g (source_userId ev)) w4 = (r5, w5)"
    by (cases "handleAIResponse e fam pid (or_string ?g (source_userId ev)) w4")
  have c5: "prefix (calls w3) (calls w5)"
    using handleAIResponse_extends[OF h] c4 by (auto simp: extends_def)
  have "snd (process_event e ev w) = w3 \<or> snd (process_event e ev w) = w4
      \<or> snd (process_event e ev w) = w5"
    using ev p f i m h by (simp add: process_event_def Let_def)
  with c4 c5 have "prefix (calls w3) (calls (snd (process_event e ev w)))"
    by auto
  then show ?thesis
    by (simp add: c3)
qed

text \<open>
  C8. Once the family id is determined, \<open>getOrCreateFamily\<close> returns it whatever
  the membership insert does. When the pair is already in the table the duplicate-key
  error is swallowed: nothing is written to the console and the store is not changed.
  When the store reports an error of its own, the error is written to the console
  unless its message contains \<open>duplicate\<close>, and the family id is returned all the same.
  The webhook then writes the message to the log under that family id.
\<close>

theorem membership_insert_is_best_effort:
  assumes det: "determine_family e p g w = (Some f, w1)"
  shows "fst (getOrCreateFamily e p u g w) = Some f
     \<and> (db_error e (length (calls w1)) = None \<and>
          list_ex (\<lambda>m. member_family_id m = f \<and> member_user_id m = Some p)
            (family_members (concurrent e (length (calls w1)) (db w1)))
        \<longrightarrow> snd (getOrCreateFamily e p u g w) = await e (InsertFamilyMember f p) w1)
     \<and> (\<forall>msg. db_error e (length (calls w1)) = Some msg \<longrightarrow>
          snd (getOrCreateFamily e p u g w) =
            (if str_includes msg ''duplicate'' then await e (InsertFamilyMember f p) w1
             else console_error (FamilyMemberError msg) (await e (InsertFamilyMember f p) w1)))
     \<and> (event_type ev = ''message'' \<and> message_type ev = ''text''
          \<and> getOrCreateUserProfile e (source_userId ev) w0 = (Some p, w)
          \<and> g = or_else (or_else (source_groupId ev) (source_roomId ev)) None
        \<longrightarrow> InsertConversation \<lparr>sender_id = p, conv_family_id = Some f,
                content = message_text ev, is_ai_generated = False\<rparr>
              \<in> set (drop (length (calls w0)) (calls (snd (process_event e ev w0)))))"
proof (intro conjI impI)
  show r: "\<And>u. fst (getOrCreateFamily e p u g w) = Some f"
    using det by (simp add: getOrCreateFamily_def)
  show "db_error e (length (calls w1)) = None \<and>
          list_ex (\<lambda>m. member_family_id m = f \<and> member_user_id m = Some p)
            (family_members (concurrent e (length (calls w1)) (db w1)))
        \<Longrightarrow> snd (getOrCreateFamily e p u g w) = await e (InsertFamilyMember f p) w1"
    using det duplicate_key_includes
    by (simp add: getOrCreateFamily_def register_member_def db_insert_def error_of_def
        insert_family_member_def Let_def)
  show "\<forall>msg. db_error e (length (calls w1)) = Some msg \<longrightarrow>
          snd (getOrCreateFamily e p u g w) =
            (if str_includes msg ''duplicate'' then await e (InsertFamilyMember f p) w1
             else console_error (FamilyMemberError msg) (await e (InsertFamilyMember f p) w1))"
    using det
    by (simp add: getOrCreateFamily_def register_member_def db_insert_def error_of_def Let_def)
  assume a: "event_type ev = ''message'' \<and> message_type ev = ''text''
          \<and> getOrCreateUserProfile e (source_userId ev) w0 = (Some p, w)
          \<and> g = or_else (or_else (source_groupId ev) (source_roomId ev)) None"
  let ?row = "\<lparr>sender_id = p, conv_family_id = Some f, content = message_text ev,
                is_ai_generated = False\<rparr>"
  let ?w2 = "snd (getOrCreateFamily e p (source_userId ev) g w)"
  have f: "getOrCreateFamily e p (source_userId ev)
             (or_else (or_else (source_groupId ev) (source_roomId ev)) None) w = (Some f, ?w2)"
    using a r[of "source_userId ev"] by (simp add: prod_eq_iff)
  from a have "extends ai_row_has_family w0 w"
    by (auto dest: getOrCreateUserProfile_extends)
  moreover from f have "extends ai_row_has_family w ?w2"
    by (rule getOrCreateFamily_extends)
  ultimately have "extends ai_row_has_family w0 ?w2"
    by (rule extends_trans)
  then obtain cs where cs: "calls ?w2 = calls w0 @ cs"
    by (auto simp: extends_iff)
  from a f have "prefix (calls ?w2 @ [InsertConversation ?row]) (calls (snd (process_event e ev w0)))"
    by (intro process_event_logs_message) simp_all
  then obtain rest where "calls (snd (process_event e ev w0)) = calls w0 @ cs @ [InsertConversation ?row] @ rest"
    by (auto simp: prefix_def cs)
  then show "InsertConversation ?row \<in> set (drop (length (calls w0)) (calls (snd (process_event e ev w0))))"
    by simp
qed

theorem membership_insert_is_best_effort_witness:
  "fst (getOrCreateFamily nominal_env 1 ''U1'' None home_world) = Some 2
   \<and> snd (getOrCreateFamily nominal_env 1 ''U1'' None home_world) =
       await nominal_env (InsertFamilyMember 2 1) (await nominal_env (SelectPersonalMembership 1) home_world)
   \<and> fst (getOrCreateFamily (store_fails_at 1) 1 ''U1'' None home_world) = Some 2
   \<and> snd (getOrCreateFamily (store_fails_at 1) 1 ''U1'' None home_world) =
       console_error (FamilyMemberError ''connection reset'')
         (await (store_fails_at 1) (InsertFamilyMember 2 1)
            (await (store_fails_at 1) (SelectPersonalMembership 1) home_world))
   \<and> InsertConversation \<lparr>sender_id = 1, conv_family_id = Some 2,
        content = message_text hello_event, is_ai_generated = False\<rparr>
       \<in> set (drop (length (calls home_world))
            (calls (snd (process_event (store_fails_at 2) hello_event home_world))))"
proof -
  let ?w1 = "await nominal_env (SelectPersonalMembership 1) home_world"
  let ?v1 = "await (store_fails_at 1) (SelectPersonalMembership 1) home_world"
  let ?u = "snd (getOrCreateUserProfile (store_fails_at 2) (source_userId hello_event) home_world)"
  let ?u1 = "await (store_fails_at 2) (SelectPersonalMembership 1) ?u"
  have d1: "determine_family nominal_env 1 None home_world = (Some 2, ?w1)"
    by (simp add: determine_family_def family_of_person_def personal_memberships_def
        prim_defs example_defs Let_def)
  have d2: "determine_family (store_fails_at 1) 1 None home_world = (Some 2, ?v1)"
    by (simp add: determine_family_def family_of_person_def personal_memberships_def
        prim_defs example_defs Let_def)
  have d3: "determine_family (store_fails_at 2) 1 None ?u = (Some 2, ?u1)"
    by (simp add: determine_family_def family_of_person_def personal_memberships_def
        getOrCreateUserProfile_def prim_defs example_defs Let_def)
  have a1: "db_error nominal_env (length (calls ?w1)) = None \<and>
          list_ex (\<lambda>m. member_family_id m = 2 \<and> member_user_id m = Some 1)
            (family_members (concurrent nominal_env (length (calls ?w1)) (db ?w1)))"
    by (simp add: example_defs)
  have a2: "db_error (store_fails_at 1) (length (calls ?v1)) = Some ''connection reset''"
    by (simp add: example_defs)
  have a3: "\<not> str_includes ''connection reset'' ''duplicate''"
    by simp
  have a4: "event_type hello_event = ''message'' \<and> message_type hello_event = ''text''
      \<and> getOrCreateUserProfile (store_fails_at 2) (source_userId hello_event) home_world = (Some 1, ?u)
      \<and> None = or_else (or_else (source_groupId hello_event) (source_roomId hello_event)) None"
    by (simp add: getOrCreateUserProfile_def prim_defs example_defs Let_def)
  note n = membership_insert_is_best_effort[OF d1, of "''U1''" hello_event home_world]
  note f = membership_insert_is_best_effort[OF d2, of "''U1''" hello_event home_world]
  note l = membership_insert_is_best_effort[OF d3, of "''U1''" hello_event home_world]
  from n have n1: "fst (getOrCreateFamily nominal_env 1 ''U1'' None home_world) = Some 2"
    by (rule conjunct1)
  from n a1 have n2: "snd (getOrCreateFamily nominal_env 1 ''U1'' None home_world) =
      await nominal_env (InsertFamilyMember 2 1) ?w1"
    by blast
  from f have f1: "fst (getOrCreateFamily (store_fails_at 1) 1 ''U1'' None home_world) = Some 2"
    by (rule conjunct1)
  from f a2 have "snd (getOrCreateFamily (store_fails_at 1) 1 ''U1'' None home_world) =
      (if str_includes ''connection reset'' ''duplicate''
       then await (store_fails_at 1) (InsertFamilyMember 2 1) ?v1
       else console_error (FamilyMemberError ''connection reset'')
              (await (store_fails_at 1) (InsertFamilyMember 2 1) ?v1))"
    by blast
  with a3 have f2: "snd (getOrCreateFamily (store_fails_at 1) 1 ''U1'' None home_world) =
      console_error (FamilyMemberError ''connection reset'')
        (await (store_fails_at 1) (InsertFamilyMember 2 1) ?v1)"
    by (simp only: if_False)
  from l a4 have l1: "InsertConversation \<lparr>sender_id = 1, conv_family_id = Some 2,
        content = message_text hello_event, is_ai_generated = False\<rparr>
       \<in> set (drop (length (calls home_world))
            (calls (snd (process_event (store_fails_at 2) hello_event home_world))))"
    by blast
  from n1 n2 f1 f2 l1 show ?thesis
    by (intro conjI)
qed

section \<open>Signature verification\<close>

text \<open>
  C7. A delivery whose signature does not verify: the group-aware webhook answers
  200 and leaves everything as it was; the 1:1 webhook answers 200 and writes one line to
  the console, with no call to the store, the platform or the generation service, and
  the store unchanged.
\<close>

theorem invalid_signature_changes_nothing:
  assumes "\<not> validateSignature e (body req) (channelSecret e) (signature_header req)"
  shows "POST e req w = (Response ''Invalid signature'' 200, w)
     \<and> fst (POST_basic e req w) = Response ''Invalid signature'' 200
     \<and> db (snd (POST_basic e req w)) = db w
     \<and> calls (snd (POST_basic e req w)) = calls w
     \<and> delivered (snd (POST_basic e req w)) = delivered w"
  using assms by (simp add: POST_def POST_basic_def)

theorem invalid_signature_changes_nothing_witness:
  "POST nominal_env forged_request home_world = (Response ''Invalid signature'' 200, home_world)
   \<and> fst (POST_basic nominal_env forged_request home_world) = Response ''Invalid signature'' 200
   \<and> db (snd (POST_basic nominal_env forged_request home_world)) = db home_world
   \<and> calls (snd (POST_basic nominal_env forged_request home_world)) = calls home_world
   \<and> delivered (snd (POST_basic nominal_env forged_request home_world)) = delivered home_world"
proof -
  have h: "\<not> validateSignature nominal_env (body forged_request) (channelSecret nominal_env)
             (signature_header forged_request)"
    by (simp add: example_defs)
  show ?thesis
    by (rule invalid_signature_changes_nothing[OF h])
qed

section \<open>The scheduled broadcast\<close>

lemma getFamilyMemberLineUserId_effect:
  "getFamilyMemberLineUserId e f w = (r, w1) \<Longrightarrow>
     \<exists>cs. calls w1 = calls w @ cs \<and> filter is_chat cs = [] \<and> filter is_topic_insert cs = []
       \<and> delivered w1 = delivered w"
  unfolding getFamilyMemberLineUserId_def Let_def
  by (auto simp: is_chat_def is_topic_insert_def
      split: prod.splits sum.splits list.splits if_splits dest!: prim_effects)

lemma getFamilyMemberInfo_effect:
  "getFamilyMemberInfo e f w = (r, w1) \<Longrightarrow>
     \<exists>cs. calls w1 = calls w @ cs \<and> filter is_chat cs = [] \<and> filter is_topic_insert cs = []
       \<and> delivered w1 = delivered w"
  unfolding getFamilyMemberInfo_def Let_def
  by (auto simp: is_chat_def is_topic_insert_def
      split: prod.splits sum.splits list.splits if_splits dest!: prim_effects)

lemma save_daily_topic_effect:
  "save_daily_topic e fam tp w sc ec = (r, w1, sc', ec') \<Longrightarrow>
     calls w1 = calls w @ [InsertDailyTopic \<lparr>topic_family_id = Some (family_id fam), topic = tp,
                              sent_to_user_id = None\<rparr>]
     \<and> delivered w1 = delivered w \<and> r = Inr () \<and> sc' = sc + 1 \<and> ec' = ec"
  unfolding save_daily_topic_def Let_def
  by (auto split: prod.splits dest!: prim_effects)

lemma save_topic_and_conversation_effect:
  "save_topic_and_conversation e fam tp pid w sc ec = (r, w1, sc', ec') \<Longrightarrow>
     calls w1 = calls w @
       [InsertDailyTopic \<lparr>topic_family_id = Some (family_id fam), topic = tp,
          sent_to_user_id = Some pid\<rparr>,
        InsertConversation \<lparr>sender_id = pid, conv_family_id = Some (family_id fam), content = tp,
          is_ai_generated = True\<rparr>]
     \<and> delivered w1 = delivered w \<and> r = Inr () \<and> sc' = sc + 1 \<and> ec' = ec"
  unfolding save_topic_and_conversation_def Let_def
  by (auto split: prod.splits dest!: prim_effects)

text \<open>
  What one run of the \<open>try\<close> block does: one generation call; then either nothing is
  delivered, no DailyTopic insert is issued and the error counter is incremented (or an
  exception leaves the block), or the topic is delivered once, one DailyTopic insert is
  issued and the success counter is incremented.
\<close>

lemma GET_family_outcome:
  assumes "GET_family e fam (w, sc, ec) = (r, w', sc', ec')"
  shows "\<exists>cs. calls w' = calls w @ cs \<and> length (filter is_chat cs) = 1 \<and>
     ((filter is_topic_insert cs = [] \<and> delivered w' = delivered w \<and> sc' = sc \<and>
        (case r of Inl x \<Rightarrow> ec' = ec | Inr u \<Rightarrow> ec' = ec + 1))
      \<or> (\<exists>target tp. tp \<noteq> [] \<and>
            filter is_topic_insert cs = [InsertDailyTopic \<lparr>topic_family_id = Some (family_id fam),
                                           topic = tp, sent_to_user_id = None\<rparr>] \<and>
            delivered w' = delivered w @ [(target, tp)] \<and> r = Inr () \<and> sc' = sc + 1 \<and> ec' = ec))"
  using assms unfolding GET_family_def
  by (auto simp: is_chat_def is_topic_insert_def
      split: prod.splits sum.splits option.splits
      dest!: prim_effects save_daily_topic_effect getFamilyMemberLineUserId_effect or_else_None_Some)

lemma GET_part_000_family_outcome:
  assumes "GET_part_000_family e fam (w, sc, ec) = (r, w', sc', ec')"
  shows "\<exists>cs. calls w' = calls w @ cs \<and> length (filter is_chat cs) = 1 \<and>
     ((filter is_topic_insert cs = [] \<and> delivered w' = delivered w \<and> sc' = sc \<and>
        (case r of Inl x \<Rightarrow> ec' = ec | Inr u \<Rightarrow> ec' = ec + 1))
      \<or> (\<exists>target tp pid. tp \<noteq> [] \<and>
            filter is_topic_insert cs = [InsertDailyTopic \<lparr>topic_family_id = Some (family_id fam),
                                           topic = tp, sent_to_user_id = Some pid\<rparr>] \<and>
            delivered w' = delivered w @ [(target, tp)] \<and> r = Inr () \<and> sc' = sc + 1 \<and> ec' = ec))"
  using assms unfolding GET_part_000_family_def
  by (auto simp: is_chat_def is_topic_insert_def
      split: prod.splits sum.splits option.splits
      dest!: prim_effects save_topic_and_conversation_effect getFamilyMemberInfo_effect
        or_else_None_Some)

lemma GET_iteration_outcome:
  assumes "GET_iteration e (w, sc, ec) fam = (w', sc', ec')"
  shows "\<exists>cs. calls w' = calls w @ cs \<and> length (filter is_chat cs) = 1 \<and>
     ((filter is_topic_insert cs = [] \<and> delivered w' = delivered w \<and> sc' = sc \<and> ec' = ec + 1)
      \<or> (\<exists>target tp. tp \<noteq> [] \<and>
            filter is_topic_insert cs = [InsertDailyTopic \<lparr>topic_family_id = Some (family_id fam),
                                           topic = tp, sent_to_user_id = None\<rparr>] \<and>
            delivered w' = delivered w @ [(target, tp)] \<and> sc' = sc + 1 \<and> ec' = ec))"
proof -
  obtain r w1 sc1 ec1 where f: "GET_family e fam (w, sc, ec) = (r, w1, sc1, ec1)"
    by (cases "GET_family e fam (w, sc, ec)") auto
  from GET_family_outcome[OF f] assms f show ?thesis
    by (cases r) (auto simp: GET_iteration_def)
qed

lemma GET_part_000_iteration_outcome:
  assumes "GET_part_000_iteration e (w, sc, ec) fam = (w', sc', ec')"
  shows "\<exists>cs. calls w' = calls w @ cs \<and> length (filter is_chat cs) = 1 \<and>
     ((filter is_topic_insert cs = [] \<and> delivered w' = delivered w \<and> sc' = sc \<and> ec' = ec + 1)
      \<or> (\<exists>target tp pid. tp \<noteq> [] \<and>
            filter is_topic_insert cs = [InsertDailyTopic \<lparr>topic_family_id = Some (family_id fam),
                                           topic = tp, sent_to_user_id = Some pid\<rparr>] \<and>
            delivered w' = delivered w @ [(target, tp)] \<and> sc' = sc + 1 \<and> ec' = ec))"
proof -
  obtain r w1 sc1 ec1 where f: "GET_part_000_family e fam (w, sc, ec) = (r, w1, sc1, ec1)"
    by (cases "GET_part_000_family e fam (w, sc, ec)") auto
  from GET_part_000_family_outcome[OF f] assms f show ?thesis
    by (cases r) (auto simp: GET_part_000_iteration_def)
qed

text \<open>The loop over the families: every family gets its generation call.\<close>

lemma GET_loop:
  "foldl (GET_iteration e) (w, sc, ec) fams = (w', sc', ec') \<Longrightarrow>
     \<exists>cs. calls w' = calls w @ cs \<and> length (filter is_chat cs) = length fams \<and>
       sc' + ec' = sc + ec + length fams \<and>
       length (delivered w') + sc = length (delivered w) + sc' \<and>
       length (filter is_topic_insert cs) + sc = sc'"
proof (induction fams arbitrary: w sc ec)
  case Nil
  then show ?case by simp
next
  case (Cons fam fams)
  obtain w1 sc1 ec1 where it: "GET_iteration e (w, sc, ec) fam = (w1, sc1, ec1)"
    by (cases "GET_iteration e (w, sc, ec) fam") auto
  with Cons.prems have rest: "foldl (GET_iteration e) (w1, sc1, ec1) fams = (w', sc', ec')"
    by simp
  from GET_iteration_outcome[OF it] Cons.IH[OF rest] show ?case
    by (elim exE conjE disjE) auto
qed

lemma GET_part_000_loop:
  "foldl (GET_part_000_iteration e) (w, sc, ec) fams = (w', sc', ec') \<Longrightarrow>
     \<exists>cs. calls w' = calls w @ cs \<and> length (filter is_chat cs) = length fams \<and>
       sc' + ec' = sc + ec + length fams \<and>
       length (delivered w') + sc = length (delivered w) + sc' \<and>
       length (filter is_topic_insert cs) + sc = sc'"
proof (induction fams arbitrary: w sc ec)
  case Nil
  then show ?case by simp
next
  case (Cons fam fams)
  obtain w1 sc1 ec1 where it: "GET_part_000_iteration e (w, sc, ec) fam = (w1, sc1, ec1)"
    by (cases "GET_part_000_iteration e (w, sc, ec) fam") auto
  with Cons.prems have rest: "foldl (GET_part_000_iteration e) (w1, sc1, ec1) fams = (w', sc', ec')"
    by simp
  from GET_part_000_iteration_outcome[OF it] Cons.IH[OF rest] show ?case
    by (elim exE conjE disjE) auto
qed

lemmas broadcast_defs = GET_def GET_iteration_def GET_family_def save_daily_topic_def
  getFamilyMemberLineUserId_def GET_part_000_def GET_part_000_iteration_def
  GET_part_000_family_def save_topic_and_conversation_def getFamilyMemberInfo_def
  getSeason_def getTimeOfDay_def

text \<open>
  One iteration from any state of the loop: when a topic is generated and a push for
  the family is accepted, the topic is delivered and the success counter incremented.
\<close>

lemma GET_iteration_delivers:
  assumes gen: "chat_answer e (length (calls w1)) = ChatContent (Some t)"
      and ne: "trim t \<noteq> []"
      and w2: "w2 = await e (ChatCompletion (topic_prompt e (getSeason e) (getTimeOfDay e))) w1"
      and route:
        "(line_group_id fam = Some g \<and> g \<noteq> [] \<and> \<not> push_rejected e (length (calls w2)) \<and> target = g)
       \<or> (line_group_id fam = Some g \<and> g \<noteq> [] \<and> push_rejected e (length (calls w2))
            \<and> getFamilyMemberLineUserId e (family_id fam) (await e (PushMessage g (trim t)) w2)
                 = (Some target, w3)
            \<and> \<not> push_rejected e (length (calls w3)))
       \<or> (or_else (line_group_id fam) None = None
            \<and> getFamilyMemberLineUserId e (family_id fam) w2 = (Some target, w3)
            \<and> \<not> push_rejected e (length (calls w3)))"
  shows "\<exists>w'. GET_iteration e (w1, sc1, ec1) fam = (w', sc1 + 1, ec1)
           \<and> delivered w' = delivered w1 @ [(target, trim t)]"
proof -
  have c: "chatCompletion e (topic_prompt e (getSeason e) (getTimeOfDay e)) w1 = (Inr (Some (trim t)), w2)"
    using gen by (simp add: chatCompletion_def w2 Let_def)
  have o: "or_else (Some (trim t)) None = Some (trim t)"
    using ne by (simp add: or_else_def truthy_def)
  have d2: "delivered w2 = delivered w1"
    by (simp add: w2)
  from route show ?thesis
  proof (elim disjE conjE)
    assume a: "line_group_id fam = Some g" "g \<noteq> []" "\<not> push_rejected e (length (calls w2))" "target = g"
    then have "or_else (line_group_id fam) None = Some g"
      by (simp add: or_else_def truthy_def)
    with a c o d2 show ?thesis
      by (simp add: GET_iteration_def GET_family_def save_daily_topic_def pushMessage_def
          db_insert_def insert_daily_topic_def Let_def split: option.splits)
  next
    assume a: "line_group_id fam = Some g" "g \<noteq> []" "push_rejected e (length (calls w2))"
      "getFamilyMemberLineUserId e (family_id fam) (await e (PushMessage g (trim t)) w2) = (Some target, w3)"
      "\<not> push_rejected e (length (calls w3))"
    then have g: "or_else (line_group_id fam) None = Some g"
      by (simp add: or_else_def truthy_def)
    from getFamilyMemberLineUserId_effect[OF a(4)] have d3: "delivered w3 = delivered w1"
      by (auto simp: d2)
    from a g c o d3 show ?thesis
      by (simp add: GET_iteration_def GET_family_def save_daily_topic_def pushMessage_def
          db_insert_def insert_daily_topic_def Let_def split: option.splits)
  next
    assume a: "or_else (line_group_id fam) None = None"
      "getFamilyMemberLineUserId e (family_id fam) w2 = (Some target, w3)"
      "\<not> push_rejected e (length (calls w3))"
    from getFamilyMemberLineUserId_effect[OF a(2)] have d3: "delivered w3 = delivered w1"
      by (auto simp: d2)
    from a c o d3 show ?thesis
      by (simp add: GET_iteration_def GET_family_def save_daily_topic_def pushMessage_def
          db_insert_def insert_daily_topic_def Let_def split: option.splits)
  qed
qed

lemma GET_part_000_iteration_delivers:
  assumes gen: "chat_answer e (length (calls w1)) = ChatContent (Some t)"
      and ne: "trim t \<noteq> []"
      and w2: "w2 = await e (ChatCompletion (topic_prompt e (getSeason e) (getTimeOfDay e))) w1"
      and info: "getFamilyMemberInfo e (family_id fam) w2 = (Some (lineUserId, profileId), w3)"
      and route:
        "(line_group_id fam = Some g \<and> g \<noteq> [] \<and> \<not> push_rejected e (length (calls w3)) \<and> target = g)
       \<or> (line_group_id fam = Some g \<and> g \<noteq> [] \<and> push_rejected e (length (calls w3))
            \<and> \<not> push_rejected e (length (calls w3) + 1) \<and> target = lineUserId)
       \<or> (or_else (line_group_id fam) None = None
            \<and> \<not> push_rejected e (length (calls w3)) \<and> target = lineUserId)"
  shows "\<exists>w'. GET_part_000_iteration e (w1, sc1, ec1) fam = (w', sc1 + 1, ec1)
           \<and> delivered w' = delivered w1 @ [(target, trim t)]"
proof -
  have c: "chatCompletion e (topic_prompt e (getSeason e) (getTimeOfDay e)) w1 = (Inr (Some (trim t)), w2)"
    using gen by (simp add: chatCompletion_def w2 Let_def)
  have o: "or_else (Some (trim t)) None = Some (trim t)"
    using ne by (simp add: or_else_def truthy_def)
  have d2: "delivered w2 = delivered w1"
    by (simp add: w2)
  from getFamilyMemberInfo_effect[OF info] have d3: "delivered w3 = delivered w1"
    by (auto simp: d2)
  from route show ?thesis
  proof (elim disjE conjE)
    assume a: "line_group_id fam = Some g" "g \<noteq> []" "\<not> push_rejected e (length (calls w3))" "target = g"
    then have "or_else (line_group_id fam) None = Some g"
      by (simp add: or_else_def truthy_def)
    with a c o d3 info show ?thesis
      by (simp add: GET_part_000_iteration_def GET_part_000_family_def
          save_topic_and_conversation_def pushMessage_def db_insert_def insert_daily_topic_def
          insert_conversation_def Let_def split: option.splits)
  next
    assume a: "line_group_id fam = Some g" "g \<noteq> []" "push_rejected e (length (calls w3))"
      "\<not> push_rejected e (length (calls w3) + 1)" "target = lineUserId"
    then have "or_else (line_group_id fam) None = Some g"
      by (simp add: or_else_def truthy_def)
    with a c o d3 info show ?thesis
      by (simp add: GET_part_000_iteration_def GET_part_000_family_def
          save_topic_and_conversation_def pushMessage_def db_insert_def insert_daily_topic_def
          insert_conversation_def Let_def split: option.splits)
  next
    assume a: "or_else (line_group_id fam) None = None"
      "\<not> push_rejected e (length (calls w3))" "target = lineUserId"
    with c o d3 info show ?thesis
      by (simp add: GET_part_000_iteration_def GET_part_000_family_def
          save_topic_and_conversation_def pushMessage_def db_insert_def insert_daily_topic_def
          insert_conversation_def Let_def split: option.splits)
  qed
qed

lemma GET_loop_delivered:
  "foldl (GET_iteration e) (w, sc, ec) fams = (w', sc', ec') \<Longrightarrow> prefix (delivered w) (delivered w')"
proof (induction fams arbitrary: w sc ec)
  case Nil
  then show ?case by simp
next
  case (Cons fam fams)
  obtain w1 sc1 ec1 where it: "GET_iteration e (w, sc, ec) fam = (w1, sc1, ec1)"
    by (cases "GET_iteration e (w, sc, ec) fam") auto
  with Cons.prems have rest: "foldl (GET_iteration e) (w1, sc1, ec1) fams = (w', sc', ec')"
    by simp
  from GET_iteration_outcome[OF it] have "prefix (delivered w) (delivered w1)"
    by auto
  with Cons.IH[OF rest] show ?case
    by (rule prefix_order.trans[rotated])
qed

lemma GET_part_000_loop_delivered:
  "foldl (GET_part_000_iteration e) (w, sc, ec) fams = (w', sc', ec') \<Longrightarrow>
     prefix (delivered w) (delivered w')"
proof (induction fams arbitrary: w sc ec)
  case Nil
  then show ?case by simp
next
  case (Cons fam fams)
  obtain w1 sc1 ec1 where it: "GET_part_000_iteration e (w, sc, ec) fam = (w1, sc1, ec1)"
    by (cases "GET_part_000_iteration e (w, sc, ec) fam") auto
  with Cons.prems have rest: "foldl (GET_part_000_iteration e) (w1, sc1, ec1) fams = (w', sc', ec')"
    by simp
  from GET_part_000_iteration_outcome[OF it] have "prefix (delivered w) (delivered w1)"
    by auto
  with Cons.IH[OF rest] show ?case
    by (rule prefix_order.trans[rotated])
qed

text \<open>
  C2 (amended). One iteration of either broadcast loop: the DailyTopic insert is
  issued exactly when the topic was delivered (to the group, to the fallback member or
  to the member of a family without a group), and the family is then counted as a
  success whatever the store answers to the insert. When nothing was delivered, no
  DailyTopic insert is issued and the family is counted as an error.
\<close>

theorem daily_topic_recorded_when_delivered:
  "(GET_iteration e (w, sc, ec) fam = (w', sc', ec') \<longrightarrow>
      (delivered w' = delivered w
         \<and> filter is_topic_insert (drop (length (calls w)) (calls w')) = []
         \<and> sc' = sc \<and> ec' = ec + 1)
    \<or> (\<exists>target tp. tp \<noteq> [] \<and> delivered w' = delivered w @ [(target, tp)]
         \<and> filter is_topic_insert (drop (length (calls w)) (calls w')) =
             [InsertDailyTopic \<lparr>topic_family_id = Some (family_id fam), topic = tp,
                sent_to_user_id = None\<rparr>]
         \<and> sc' = sc + 1 \<and> ec' = ec))
   \<and> (GET_part_000_iteration e (v, tc, fc) fam = (v', tc', fc') \<longrightarrow>
      (delivered v' = delivered v
         \<and> filter is_topic_insert (drop (length (calls v)) (calls v')) = []
         \<and> tc' = tc \<and> fc' = fc + 1)
    \<or> (\<exists>target tp pid. tp \<noteq> [] \<and> delivered v' = delivered v @ [(target, tp)]
         \<and> filter is_topic_insert (drop (length (calls v)) (calls v')) =
             [InsertDailyTopic \<lparr>topic_family_id = Some (family_id fam), topic = tp,
                sent_to_user_id = Some pid\<rparr>]
         \<and> tc' = tc + 1 \<and> fc' = fc))"
proof (intro conjI impI)
  assume "GET_iteration e (w, sc, ec) fam = (w', sc', ec')"
  from GET_iteration_outcome[OF this]
  show "(delivered w' = delivered w
         \<and> filter is_topic_insert (drop (length (calls w)) (calls w')) = []
         \<and> sc' = sc \<and> ec' = ec + 1)
    \<or> (\<exists>target tp. tp \<noteq> [] \<and> delivered w' = delivered w @ [(target, tp)]
         \<and> filter is_topic_insert (drop (length (calls w)) (calls w')) =
             [InsertDailyTopic \<lparr>topic_family_id = Some (family_id fam), topic = tp,
                sent_to_user_id = None\<rparr>]
         \<and> sc' = sc + 1 \<and> ec' = ec)"
    by (elim exE conjE disjE) auto
next
  assume "GET_part_000_iteration e (v, tc, fc) fam = (v', tc', fc')"
  from GET_part_000_iteration_outcome[OF this]
  show "(delivered v' = delivered v
         \<and> filter is_topic_insert (drop (length (calls v)) (calls v')) = []
         \<and> tc' = tc \<and> fc' = fc + 1)
    \<or> (\<exists>target tp pid. tp \<noteq> [] \<and> delivered v' = delivered v @ [(target, tp)]
         \<and> filter is_topic_insert (drop (length (calls v)) (calls v')) =
             [InsertDailyTopic \<lparr>topic_family_id = Some (family_id fam), topic = tp,
                sent_to_user_id = Some pid\<rparr>]
         \<and> tc' = tc + 1 \<and> fc' = fc)"
    by (elim exE conjE disjE) auto
qed

text \<open>
  Family A, whose two pushes are rejected, in both loops: nothing is delivered, no
  DailyTopic insert is issued.
\<close>

theorem daily_topic_recorded_when_delivered_witness:
  "delivered (fst (GET_iteration unreachable_env (three_families_world, 0, 0) family_A)) =
     delivered three_families_world
   \<and> filter is_topic_insert (drop (length (calls three_families_world))
        (calls (fst (GET_iteration unreachable_env (three_families_world, 0, 0) family_A)))) = []
   \<and> delivered (fst (GET_part_000_iteration unreachable_env (three_families_world, 0, 0) family_A)) =
     delivered three_families_world
   \<and> filter is_topic_insert (drop (length (calls three_families_world))
        (calls (fst (GET_part_000_iteration unreachable_env (three_families_world, 0, 0) family_A)))) = []
   \<and> delivered (fst (GET_iteration nominal_env (three_families_world, 0, 0) family_A)) =
     delivered three_families_world @ [(''GA'', ''nice'')]
   \<and> filter is_topic_insert (drop (length (calls three_families_world))
        (calls (fst (GET_iteration nominal_env (three_families_world, 0, 0) family_A)))) =
     [InsertDailyTopic \<lparr>topic_family_id = Some (family_id family_A), topic = ''nice'',
        sent_to_user_id = None\<rparr>]"
proof -
  let ?w = "fst (GET_iteration unreachable_env (three_families_world, 0, 0) family_A)"
  let ?v = "fst (GET_part_000_iteration unreachable_env (three_families_world, 0, 0) family_A)"
  let ?u = "fst (GET_iteration nominal_env (three_families_world, 0, 0) family_A)"
  have a: "GET_iteration unreachable_env (three_families_world, 0, 0) family_A = (?w, 0, 1)"
    by (simp add: broadcast_defs prim_defs example_defs Let_def)
  have b: "GET_part_000_iteration unreachable_env (three_families_world, 0, 0) family_A = (?v, 0, 1)"
    by (simp add: broadcast_defs prim_defs example_defs Let_def)
  have c: "GET_iteration nominal_env (three_families_world, 0, 0) family_A = (?u, 1, 0)"
    by (simp add: broadcast_defs prim_defs example_defs Let_def)
  have d: "delivered ?u = delivered three_families_world @ [(''GA'', ''nice'')]"
    by (simp add: broadcast_defs prim_defs example_defs Let_def)
  note t = daily_topic_recorded_when_delivered[where e = unreachable_env and fam = family_A
      and w = three_families_world and sc = 0 and ec = 0 and w' = ?w and sc' = 0 and ec' = 1
      and v = three_families_world and tc = 0 and fc = 0 and v' = ?v and tc' = 0 and fc' = 1]
  note s = daily_topic_recorded_when_delivered[where e = nominal_env and fam = family_A
      and w = three_families_world and sc = 0 and ec = 0 and w' = ?u and sc' = 1 and ec' = 0]
  from t a have "delivered ?w = delivered three_families_world
      \<and> filter is_topic_insert (drop (length (calls three_families_world)) (calls ?w)) = []"
    by auto
  moreover from t b have "delivered ?v = delivered three_families_world
      \<and> filter is_topic_insert (drop (length (calls three_families_world)) (calls ?v)) = []"
    by auto
  moreover from s c d have "filter is_topic_insert (drop (length (calls three_families_world)) (calls ?u)) =
     [InsertDailyTopic \<lparr>topic_family_id = Some (family_id family_A), topic = ''nice'',
        sent_to_user_id = None\<rparr>]"
    by auto
  ultimately show ?thesis
    using d by blast
qed

text \<open>
  The claim as stated fails: a topic is generated for each of the three families and
  pushed, every push is rejected, and neither loop issues a DailyTopic insert or leaves
  a DailyTopic row.
\<close>

theorem daily_topic_not_recorded_counterexample:
  "fst (GET unreachable_env three_families_world) = Summary 3 0 3
   \<and> PushMessage ''GA'' ''plans for the weekend?'' \<in> set (calls (snd (GET unreachable_env three_families_world)))
   \<and> filter is_topic_insert (calls (snd (GET unreachable_env three_families_world))) = []
   \<and> daily_topics (db (snd (GET unreachable_env three_families_world))) = []
   \<and> fst (GET_part_000 unreachable_env three_families_world) = Summary 3 0 3
   \<and> PushMessage ''GA'' ''plans for the weekend?''
        \<in> set (calls (snd (GET_part_000 unreachable_env three_families_world)))
   \<and> filter is_topic_insert (calls (snd (GET_part_000 unreachable_env three_families_world))) = []
   \<and> daily_topics (db (snd (GET_part_000 unreachable_env three_families_world))) = []"
  by (simp add: broadcast_defs prim_defs example_defs is_topic_insert_def Let_def)

text \<open>
  C6. Once the families are fetched and there is at least one, either broadcast
  answers with the summary, whatever the generation service, the platform and the store
  do afterwards: \<open>processed\<close> is the number of families, every family gets its
  generation call (none is skipped because an earlier one failed), the two counters add
  up to the number of families, and the success counter is the number of messages
  delivered. Whatever happened to the families before it (failed generation, rejected
  pushes, failed fallback, an exception), a family is processed on its own: when a topic
  is generated for it and a push for it is accepted (the group push, the fallback push
  after a rejected group push, or the push to the member of a family without a group),
  it is counted as a success and its message is among those the broadcast delivered.
\<close>

theorem broadcast_never_aborts:
  assumes ok: "db_error e (length (calls w)) = None"
      and fams: "fams = families (concurrent e (length (calls w)) (db w))"
      and ne: "fams \<noteq> []"
  shows "(\<exists>s er w'. GET e w = (Summary (length fams) s er, w') \<and> s + er = length fams
            \<and> length (filter is_chat (drop (length (calls w)) (calls w'))) = length fams
            \<and> length (delivered w') = length (delivered w) + s)
     \<and> (\<exists>s er w'. GET_part_000 e w = (Summary (length fams) s er, w') \<and> s + er = length fams
            \<and> length (filter is_chat (drop (length (calls w)) (calls w'))) = length fams
            \<and> length (delivered w') = length (delivered w) + s)
     \<and> (fams = fams1 @ fam # fams2
          \<and> foldl (GET_iteration e) (await e SelectFamilies w, 0, 0) fams1 = (w1, sc1, ec1)
          \<and> chat_answer e (length (calls w1)) = ChatContent (Some t) \<and> trim t \<noteq> []
          \<and> w2 = await e (ChatCompletion (topic_prompt e (getSeason e) (getTimeOfDay e))) w1
          \<and> ((line_group_id fam = Some g \<and> g \<noteq> [] \<and> \<not> push_rejected e (length (calls w2))
                \<and> target = g)
             \<or> (line_group_id fam = Some g \<and> g \<noteq> [] \<and> push_rejected e (length (calls w2))
                \<and> getFamilyMemberLineUserId e (family_id fam) (await e (PushMessage g (trim t)) w2)
                     = (Some target, w3)
                \<and> \<not> push_rejected e (length (calls w3)))
             \<or> (or_else (line_group_id fam) None = None
                \<and> getFamilyMemberLineUserId e (family_id fam) w2 = (Some target, w3)
                \<and> \<not> push_rejected e (length (calls w3))))
        \<longrightarrow> (\<exists>w'. GET_iteration e (w1, sc1, ec1) fam = (w', sc1 + 1, ec1)
                  \<and> delivered w' = delivered w1 @ [(target, trim t)])
            \<and> (target, trim t) \<in> set (delivered (snd (GET e w))))
     \<and> (fams = fams1 @ fam # fams2
          \<and> foldl (GET_part_000_iteration e) (await e SelectFamilies w, 0, 0) fams1 = (v1, tc1, fc1)
          \<and> chat_answer e (length (calls v1)) = ChatContent (Some t) \<and> trim t \<noteq> []
          \<and> v2 = await e (ChatCompletion (topic_prompt e (getSeason e) (getTimeOfDay e))) v1
          \<and> getFamilyMemberInfo e (family_id fam) v2 = (Some (lineUserId, profileId), v3)
          \<and> ((line_group_id fam = Some g \<and> g \<noteq> [] \<and> \<not> push_rejected e (length (calls v3))
                \<and> target = g)
             \<or> (line_group_id fam = Some g \<and> g \<noteq> [] \<and> push_rejected e (length (calls v3))
                \<and> \<not> push_rejected e (length (calls v3) + 1) \<and> target = lineUserId)
             \<or> (or_else (line_group_id fam) None = None
                \<and> \<not> push_rejected e (length (calls v3)) \<and> target = lineUserId))
        \<longrightarrow> (\<exists>v'. GET_part_000_iteration e (v1, tc1, fc1) fam = (v', tc1 + 1, fc1)
                  \<and> delivered v' = delivered v1 @ [(target, trim t)])
            \<and> (target, trim t) \<in> set (delivered (snd (GET_part_000 e w))))"
proof (intro conjI impI)
  let ?w1 = "await e SelectFamilies w"
  obtain w' s er where l: "foldl (GET_iteration e) (?w1, 0, 0) fams = (w', s, er)"
    by (cases "foldl (GET_iteration e) (?w1, 0, 0) fams") auto
  have g: "GET e w = (Summary (length fams) s er, w')"
    using ok ne l by (simp add: GET_def db_select_def fams Let_def)
  from GET_loop[OF l] obtain cs where
    cs: "calls w' = calls ?w1 @ cs" "length (filter is_chat cs) = length fams"
      "s + er = length fams" "length (delivered w') = length (delivered ?w1) + s"
    by auto
  have "length (filter is_chat (drop (length (calls w)) (calls w'))) = length fams"
    using cs by (simp add: is_chat_def)
  with g cs
  show "\<exists>s er w'. GET e w = (Summary (length fams) s er, w') \<and> s + er = length fams
            \<and> length (filter is_chat (drop (length (calls w)) (calls w'))) = length fams
            \<and> length (delivered w') = length (delivered w) + s"
    by auto
next
  let ?w1 = "await e SelectFamilies w"
  obtain w' s er where l: "foldl (GET_part_000_iteration e) (?w1, 0, 0) fams = (w', s, er)"
    by (cases "foldl (GET_part_000_iteration e) (?w1, 0, 0) fams") auto
  have g: "GET_part_000 e w = (Summary (length fams) s er, w')"
    using ok ne l by (simp add: GET_part_000_def db_select_def fams Let_def)
  from GET_part_000_loop[OF l] obtain cs where
    cs: "calls w' = calls ?w1 @ cs" "length (filter is_chat cs) = length fams"
      "s + er = length fams" "length (delivered w') = length (delivered ?w1) + s"
    by auto
  have "length (filter is_chat (drop (length (calls w)) (calls w'))) = length fams"
    using cs by (simp add: is_chat_def)
  with g cs
  show "\<exists>s er w'. GET_part_000 e w = (Summary (length fams) s er, w') \<and> s + er = length fams
            \<and> length (filter is_chat (drop (length (calls w)) (calls w'))) = length fams
            \<and> length (delivered w') = length (delivered w) + s"
    by auto
next
  assume a: "fams = fams1 @ fam # fams2
          \<and> foldl (GET_iteration e) (await e SelectFamilies w, 0, 0) fams1 = (w1, sc1, ec1)
          \<and> chat_answer e (length (calls w1)) = ChatContent (Some t) \<and> trim t \<noteq> []
          \<and> w2 = await e (ChatCompletion (topic_prompt e (getSeason e) (getTimeOfDay e))) w1
          \<and> ((line_group_id fam = Some g \<and> g \<noteq> [] \<and> \<not> push_rejected e (length (calls w2))
                \<and> target = g)
             \<or> (line_group_id fam = Some g \<and> g \<noteq> [] \<and> push_rejected e (length (calls w2))
                \<and> getFamilyMemberLineUserId e (family_id fam) (await e (PushMessage g (trim t)) w2)
                     = (Some target, w3)
                \<and> \<not> push_rejected e (length (calls w3)))
             \<or> (or_else (line_group_id fam) None = None
                \<and> getFamilyMemberLineUserId e (family_id fam) w2 = (Some target, w3)
                \<and> \<not> push_rejected e (length (calls w3))))"
  then obtain w' where it: "GET_iteration e (w1, sc1, ec1) fam = (w', sc1 + 1, ec1)"
      and d: "delivered w' = delivered w1 @ [(target, trim t)]"
    using GET_iteration_delivers[of e w1 t w2 fam g target w3 sc1 ec1] by blast
  then show "\<exists>w'. GET_iteration e (w1, sc1, ec1) fam = (w', sc1 + 1, ec1)
                  \<and> delivered w' = delivered w1 @ [(target, trim t)]"
    by blast
  obtain wf s er where l: "foldl (GET_iteration e) (w', sc1 + 1, ec1) fams2 = (wf, s, er)"
    by (cases "foldl (GET_iteration e) (w', sc1 + 1, ec1) fams2") auto
  with a it have "foldl (GET_iteration e) (await e SelectFamilies w, 0, 0) fams = (wf, s, er)"
    by simp
  then have "snd (GET e w) = wf"
    using ok ne by (simp add: GET_def db_select_def fams[symmetric] Let_def)
  moreover from GET_loop_delivered[OF l] have "set (delivered w') \<subseteq> set (delivered wf)"
    by (rule set_mono_prefix)
  ultimately show "(target, trim t) \<in> set (delivered (snd (GET e w)))"
    using d by auto
next
  assume a: "fams = fams1 @ fam # fams2
          \<and> foldl (GET_part_000_iteration e) (await e SelectFamilies w, 0, 0) fams1 = (v1, tc1, fc1)
          \<and> chat_answer e (length (calls v1)) = ChatContent (Some t) \<and> trim t \<noteq> []
          \<and> v2 = await e (ChatCompletion (topic_prompt e (getSeason e) (getTimeOfDay e))) v1
          \<and> getFamilyMemberInfo e (family_id fam) v2 = (Some (lineUserId, profileId), v3)
          \<and> ((line_group_id fam = Some g \<and> g \<noteq> [] \<and> \<not> push_rejected e (length (calls v3))
                \<and> target = g)
             \<or> (line_group_id fam = Some g \<and> g \<noteq> [] \<and> push_rejected e (length (calls v3))
                \<and> \<not> push_rejected e (length (calls v3) + 1) \<and> target = lineUserId)
             \<or> (or_else (line_group_id fam) None = None
                \<and> \<not> push_rejected e (length (calls v3)) \<and> target = lineUserId))"
  then obtain v' where it: "GET_part_000_iteration e (v1, tc1, fc1) fam = (v', tc1 + 1, fc1)"
      and d: "delivered v' = delivered v1 @ [(target, trim t)]"
    using GET_part_000_iteration_delivers[of e v1 t v2 fam lineUserId profileId v3 g target tc1 fc1]
    by blast
  then show "\<exists>v'. GET_part_000_iteration e (v1, tc1, fc1) fam = (v', tc1 + 1, fc1)
                  \<and> delivered v' = delivered v1 @ [(target, trim t)]"
    by blast
  obtain wf s er where l: "foldl (GET_part_000_iteration e) (v', tc1 + 1, fc1) fams2 = (wf, s, er)"
    by (cases "foldl (GET_part_000_iteration e) (v', tc1 + 1, fc1) fams2") auto
  with a it have "foldl (GET_part_000_iteration e) (await e SelectFamilies w, 0, 0) fams = (wf, s, er)"
    by simp
  then have "snd (GET_part_000 e w) = wf"
    using ok ne by (simp add: GET_part_000_def db_select_def fams[symmetric] Let_def)
  moreover from GET_part_000_loop_delivered[OF l] have "set (delivered v') \<subseteq> set (delivered wf)"
    by (rule set_mono_prefix)
  ultimately show "(target, trim t) \<in> set (delivered (snd (GET_part_000 e w)))"
    using d by auto
qed

text \<open>
  Three families. First, the generation call for the second one fails: processed 3,
  success 2, errors 1, and the first and the third family receive the topic. Second,
  the group push and the fallback push of the first family are rejected: processed 3,
  success 2, errors 1, and the second and the third family receive the topic.
\<close>

theorem broadcast_never_aborts_witness:
  "fst (GET (generation_fails_at 4) three_families_world) = Summary 3 2 1
   \<and> delivered (snd (GET (generation_fails_at 4) three_families_world)) =
       [(''GA'', ''plans for the weekend?''), (''GC'', ''plans for the weekend?'')]
   \<and> fst (GET_part_000 (generation_fails_at 7) three_families_world) = Summary 3 2 1
   \<and> delivered (snd (GET_part_000 (generation_fails_at 7) three_families_world)) =
       [(''GA'', ''plans for the weekend?''), (''GC'', ''plans for the weekend?'')]
   \<and> fst (GET first_family_unreachable_env three_families_world) = Summary 3 2 1
   \<and> fst (GET_part_000 first_family_unreachable_env three_families_world) = Summary 3 2 1
   \<and> (''GB'', trim ''plans for the weekend?'')
        \<in> set (delivered (snd (GET first_family_unreachable_env three_families_world)))
   \<and> (''GB'', trim ''plans for the weekend?'')
        \<in> set (delivered (snd (GET_part_000 first_family_unreachable_env three_families_world)))
   \<and> (\<exists>s er w'. GET (generation_fails_at 4) three_families_world =
          (Summary (length three_families) s er, w') \<and> s + er = length three_families
        \<and> length (filter is_chat (drop (length (calls three_families_world)) (calls w'))) =
            length three_families
        \<and> length (delivered w') = length (delivered three_families_world) + s)"
proof -
  let ?f = first_family_unreachable_env
  let ?W = three_families_world
  let ?tp = "topic_prompt ?f (getSeason ?f) (getTimeOfDay ?f)"
  let ?w1 = "fst (GET_iteration ?f (await ?f SelectFamilies ?W, 0, 0) family_A)"
  let ?w2 = "await ?f (ChatCompletion ?tp) ?w1"
  let ?v1 = "fst (GET_part_000_iteration ?f (await ?f SelectFamilies ?W, 0, 0) family_A)"
  let ?v2 = "await ?f (ChatCompletion ?tp) ?v1"
  let ?v3 = "snd (getFamilyMemberInfo ?f (family_id family_B) ?v2)"
  have h1: "db_error (generation_fails_at 4) (length (calls ?W)) = None"
    by (simp add: example_defs)
  have h2: "three_families = families (concurrent (generation_fails_at 4)
              (length (calls ?W)) (db ?W))"
    by (simp add: example_defs)
  have h3: "three_families \<noteq> []"
    by (simp add: example_defs)
  have e1: "fst (GET (generation_fails_at 4) ?W) = Summary 3 2 1"
    by (simp add: broadcast_defs prim_defs example_defs Let_def)
  have e2: "delivered (snd (GET (generation_fails_at 4) ?W)) =
       [(''GA'', ''plans for the weekend?''), (''GC'', ''plans for the weekend?'')]"
    by (simp add: broadcast_defs prim_defs example_defs Let_def)
  have e3: "fst (GET_part_000 (generation_fails_at 7) ?W) = Summary 3 2 1"
    by (simp add: broadcast_defs prim_defs example_defs Let_def)
  have e4: "delivered (snd (GET_part_000 (generation_fails_at 7) ?W)) =
       [(''GA'', ''plans for the weekend?''), (''GC'', ''plans for the weekend?'')]"
    by (simp add: broadcast_defs prim_defs example_defs Let_def)
  have e5: "fst (GET ?f ?W) = Summary 3 2 1"
    by (simp add: broadcast_defs prim_defs example_defs Let_def)
  have e6: "fst (GET_part_000 ?f ?W) = Summary 3 2 1"
    by (simp add: broadcast_defs prim_defs example_defs Let_def)
  have k1: "db_error ?f (length (calls ?W)) = None"
    by (simp add: example_defs)
  have k2: "three_families = families (concurrent ?f (length (calls ?W)) (db ?W))"
    by (simp add: example_defs)
  have a1: "three_families = [family_A] @ family_B # [family_C]"
    by (simp add: example_defs)
  have a2: "foldl (GET_iteration ?f) (await ?f SelectFamilies ?W, 0, 0) [family_A] = (?w1, 0, 1)"
    by (simp add: broadcast_defs prim_defs example_defs Let_def)
  have a3: "chat_answer ?f (length (calls ?w1)) = ChatContent (Some ''plans for the weekend?'')"
    by (simp add: example_defs)
  have a4: "trim ''plans for the weekend?'' \<noteq> []"
    by (simp add: trim_examples)
  have a5: "line_group_id family_B = Some ''GB'' \<and> ''GB'' \<noteq> []
      \<and> \<not> push_rejected ?f (length (calls ?w2)) \<and> ''GB'' = ''GB''"
    by (simp add: broadcast_defs prim_defs example_defs Let_def)
  have b2: "foldl (GET_part_000_iteration ?f) (await ?f SelectFamilies ?W, 0, 0) [family_A] = (?v1, 0, 1)"
    by (simp add: broadcast_defs prim_defs example_defs Let_def)
  have b3: "chat_answer ?f (length (calls ?v1)) = ChatContent (Some ''plans for the weekend?'')"
    by (simp add: example_defs)
  have b4: "getFamilyMemberInfo ?f (family_id family_B) ?v2 = (Some (''U2'', 2), ?v3)"
    by (simp add: broadcast_defs prim_defs example_defs Let_def)
  have b5: "line_group_id family_B = Some ''GB'' \<and> ''GB'' \<noteq> []
      \<and> \<not> push_rejected ?f (length (calls ?v3)) \<and> ''GB'' = ''GB''"
    by (simp add: broadcast_defs prim_defs example_defs Let_def)
  note g = broadcast_never_aborts[OF h1 h2 h3]
  note t = broadcast_never_aborts[OF k1 k2 h3, where ?fams1.0 = "[family_A]" and fam = family_B
      and ?fams2.0 = "[family_C]" and ?w1.0 = ?w1 and ?sc1.0 = 0 and ?ec1.0 = 1
      and t = "''plans for the weekend?''" and ?w2.0 = ?w2 and g = "''GB''" and target = "''GB''"
      and ?v1.0 = ?v1 and ?tc1.0 = 0 and ?fc1.0 = 1 and ?v2.0 = ?v2 and ?v3.0 = ?v3
      and lineUserId = "''U2''" and profileId = 2]
  from t a1 a2 a3 a4 a5 have m1: "(''GB'', trim ''plans for the weekend?'')
        \<in> set (delivered (snd (GET ?f ?W)))"
    by blast
  from t a1 b2 b3 a4 b4 b5 have m2: "(''GB'', trim ''plans for the weekend?'')
        \<in> set (delivered (snd (GET_part_000 ?f ?W)))"
    by blast
  from g have g1: "\<exists>s er w'. GET (generation_fails_at 4) ?W =
          (Summary (length three_families) s er, w') \<and> s + er = length three_families
        \<and> length (filter is_chat (drop (length (calls ?W)) (calls w'))) = length three_families
        \<and> length (delivered w') = length (delivered ?W) + s"
    by (rule conjunct1)
  from e1 e2 e3 e4 e5 e6 m1 m2 g1 show ?thesis
    by (intro conjI)
qed

text \<open>
  C10. When the broadcast of \<open>route.ts\<close> answers with the summary, success plus
  errors is \<open>processed\<close>, and \<open>processed\<close> is the number of Family rows fetched; every
  iteration of the loop increments exactly one of the two counters.
\<close>

theorem summary_counts_partition:
  "(GET e w = (Summary p s er, w') \<longrightarrow>
      s + er = p \<and> p = length (families (concurrent e (length (calls w)) (db w))))
   \<and> (GET_iteration e (w0, sc, ec) fam = (w1, sc1, ec1) \<longrightarrow>
        (sc1 = sc + 1 \<and> ec1 = ec) \<or> (sc1 = sc \<and> ec1 = ec + 1))"
proof (intro conjI impI)
  assume g: "GET e w = (Summary p s er, w')"
  let ?fams = "families (concurrent e (length (calls w)) (db w))"
  from g have p: "p = length ?fams"
    by (auto simp: GET_def db_select_def Let_def split: option.splits if_splits prod.splits)
  from g have "foldl (GET_iteration e) (await e SelectFamilies w, 0, 0) ?fams = (w', s, er)"
    by (auto simp: GET_def db_select_def Let_def split: option.splits if_splits prod.splits)
  from GET_loop[OF this] p show "s + er = p" by auto
  from p show "p = length ?fams" .
next
  assume "GET_iteration e (w0, sc, ec) fam = (w1, sc1, ec1)"
  from GET_iteration_outcome[OF this] show "(sc1 = sc + 1 \<and> ec1 = ec) \<or> (sc1 = sc \<and> ec1 = ec + 1)"
    by auto
qed

theorem summary_counts_partition_witness:
  "GET unreachable_env three_families_world =
     (Summary 3 0 3, snd (GET unreachable_env three_families_world))
   \<and> (0::nat) + 3 = 3
   \<and> (3::nat) = length (families (concurrent unreachable_env (length (calls three_families_world))
                          (db three_families_world)))
   \<and> snd (GET_iteration (generation_fails_at 4) (three_families_world, 0, 0) family_A) = (1, 0)
   \<and> ((1::nat) = 0 + 1 \<and> (0::nat) = 0 \<or> (1::nat) = 0 \<and> (0::nat) = 0 + 1)"
proof -
  let ?w1 = "fst (GET_iteration (generation_fails_at 4) (three_families_world, 0, 0) family_A)"
  have g: "GET unreachable_env three_families_world =
      (Summary 3 0 3, snd (GET unreachable_env three_families_world))"
    by (simp add: broadcast_defs prim_defs example_defs Let_def prod_eq_iff)
  have c: "snd (GET_iteration (generation_fails_at 4) (three_families_world, 0, 0) family_A) = (1, 0)"
    by (simp add: broadcast_defs prim_defs example_defs Let_def)
  then have i: "GET_iteration (generation_fails_at 4) (three_families_world, 0, 0) family_A = (?w1, 1, 0)"
    by (simp add: prod_eq_iff)
  note t = summary_counts_partition[where e = unreachable_env and w = three_families_world
      and p = 3 and s = 0 and er = 3 and w' = "snd (GET unreachable_env three_families_world)"]
  note u = summary_counts_partition[where e = "generation_fails_at 4"
      and ?w0.0 = three_families_world and ?w1.0 = ?w1 and sc = 0 and ec = 0
      and ?sc1.0 = 1 and ?ec1.0 = 0 and fam = family_A]
  from t g have a: "(0::nat) + 3 = 3
      \<and> (3::nat) = length (families (concurrent unreachable_env (length (calls three_families_world))
                          (db three_families_world)))"
    by blast
  from u i have b: "(1::nat) = 0 + 1 \<and> (0::nat) = 0 \<or> (1::nat) = 0 \<and> (0::nat) = 0 + 1"
    by blast
  from g a b c show ?thesis
    by blast
qed

end
